theory Spec2Isabelle
  imports Complex_Main
begin

section \<open>Data model (types.ts)\<close>

text \<open>
  JavaScript numbers are modelled as \<open>real\<close> where they carry positions, velocities and
  times, and as \<open>int\<close> where the program only ever stores whole counters (score, lives,
  slicedCount, bombsHit, combo).  The times that the combo rule stores and compares are
  rounded to binary64 as the program rounds them; elsewhere rounding is outside the model, and
  so are NaN and the infinities.  \<open>Math.cos\<close>, \<open>Math.sin\<close> and \<open>Math.PI\<close> are read from the host's
  \<open>Math\<close> object, whatever it returns.  Record fields carry a prefix because several
  interfaces share the field names \<open>x\<close>, \<open>y\<close>, \<open>vx\<close>, \<open>vy\<close>, \<open>life\<close>.  Emoji glyphs are written
  as ASCII names.
\<close>

datatype GameState = MENU | PLAYING | GAME_OVER

record Point =
  p_x :: real
  p_y :: real
  p_life :: "real option"

datatype FruitType =
  apple | banana | orange | watermelon | pineapple | peach | coconut | grapes | bomb

record Fruit =
  f_id :: real
  f_x :: real
  f_y :: real
  f_vx :: real
  f_vy :: real
  f_rotation :: real
  f_rotationSpeed :: real
  f_type :: FruitType
  f_radius :: real
  f_sliced :: bool
  f_color :: string
  f_emoji :: string

record Particle =
  pt_id :: real
  pt_x :: real
  pt_y :: real
  pt_vx :: real
  pt_vy :: real
  pt_life :: real
  pt_color :: string
  pt_size :: real

datatype Side = left | right

record Debris =
  d_id :: real
  d_x :: real
  d_y :: real
  d_vx :: real
  d_vy :: real
  d_rotation :: real
  d_rotationSpeed :: real
  d_emoji :: string
  d_radius :: real
  d_cutAngle :: real
  d_side :: Side
  d_life :: real
  d_opacity :: real

record FloatingText =
  t_id :: real
  t_x :: real
  t_y :: real
  t_text :: string
  t_life :: real
  t_color :: string
  t_scale :: real
  t_vy :: real


text \<open>
  A value as \<open>JSON.parse\<close> returns it.  The cast \<open>as SenseiFeedback\<close> exists at compile time
  only, so the commentary that reaches the App is a value of this type.
\<close>

datatype json =
  JNull | JBool bool | JNumber real | JString string | JArray "json list"
  | JObject "(string \<times> json) list"




section \<open>Double-precision arithmetic\<close>

text \<open>
  One binary64 operation returns the exact result rounded to the nearest double, ties to
  the even significand.  \<open>binade x\<close> is the exponent \<open>e\<close> with \<open>2 ^ e \<le> |x| < 2 ^ (e + 1)\<close>, and a
  double is a multiple of \<open>2 ^ (e - 52)\<close>.  Overflow and subnormal numbers are outside the
  model: the times it rounds lie between a millisecond and years.
\<close>

definition roundTiesToEven :: "real \<Rightarrow> int" where
  "roundTiesToEven q =
     (let f = \<lfloor>q\<rfloor>; r = q - of_int f
      in if r < 1 / 2 then f else if 1 / 2 < r then f + 1 else if even f then f else f + 1)"

definition binade :: "real \<Rightarrow> int" where
  "binade x = \<lfloor>log 2 \<bar>x\<bar>\<rfloor>"

definition toDouble :: "real \<Rightarrow> real" where
  "toDouble x =
     (if x = 0 then 0
      else of_int (roundTiesToEven (x / 2 powi (binade x - 52))) * 2 powi (binade x - 52))"

text \<open>The operators \<open>/\<close> and \<open>-\<close> on doubles.\<close>

definition jsDiv :: "real \<Rightarrow> real \<Rightarrow> real" where
  "jsDiv a b = toDouble (a / b)"

definition jsSub :: "real \<Rightarrow> real \<Rightarrow> real" where
  "jsSub a b = toDouble (a - b)"

section \<open>Constants (MotionGame)\<close>

definition GRAVITY :: real where "GRAVITY = 1500"
definition BASE_SPAWN_INTERVAL :: real where "BASE_SPAWN_INTERVAL = 8 / 10"
definition MAX_LIVES :: int where "MAX_LIVES = 3"
definition TRAIL_LENGTH :: real where "TRAIL_LENGTH = 10"
definition FRUIT_LIFETIME_Y_OFFSET :: real where "FRUIT_LIFETIME_Y_OFFSET = 150"
definition COMBO_WINDOW :: real where "COMBO_WINDOW = toDouble (3 / 10)"

section \<open>The component's mutable state\<close>

text \<open>
  A callback registered with \<open>setTimeout\<close> by \<open>spawnWave\<close>: the delay in milliseconds and the
  arguments \<open>width\<close>, \<open>height\<close>, \<open>difficulty\<close> captured by the closure
  \<open>() => spawnFruit(width, height, false, difficulty)\<close>.
\<close>

record Timer =
  tm_delay :: real
  tm_width :: real
  tm_height :: real
  tm_difficulty :: real

text \<open>
  The part of the global \<open>Math\<close> object that the effects read: \<open>Math.PI\<close>, \<open>Math.cos\<close> and
  \<open>Math.sin\<close>.  The language fixes none of the values the two functions return.
\<close>

record MathObject =
  m_PI :: real
  m_cos :: "real \<Rightarrow> real"
  m_sin :: "real \<Rightarrow> real"

text \<open>
  One field per \<open>useRef\<close> cell, the two pieces of React state the loop writes
  (\<open>waitingForHand\<close>, and \<open>gameState\<close> through \<open>setGameState\<close>), the UI mirrors written by
  \<open>setScore\<close> and \<open>setLives\<close>, and four fields that make effects and globals explicit:
  \<open>rng\<close> counts the calls of \<open>Math.random()\<close> made so far (the k-th call returns \<open>rnd k\<close> for a
  tape \<open>rnd\<close> passed to every function), \<open>timeouts\<close> is the queue of pending \<open>setTimeout\<close>
  callbacks, \<open>reports\<close> logs every call \<open>onGameOver(score, sliced, bombs)\<close>, and \<open>mathObj\<close> is
  the global \<open>Math\<close> object, which the component reads and never writes.
\<close>

record State =
  scoreRef :: int
  livesRef :: int
  slicedCountRef :: int
  bombsHitRef :: int
  timeSinceSpawnRef :: real
  spawnTimerRef :: real
  lastSliceTimeRef :: real
  currentComboRef :: int
  fruitsRef :: "Fruit list"
  particlesRef :: "Particle list"
  debrisRef :: "Debris list"
  trailRef :: "Point list"
  textsRef :: "FloatingText list"
  shakeRef :: real
  flashRef :: real
  cursorRef :: "(real \<times> real) option"
  lastTimeRef :: real
  waitingForHand :: bool
  gameState :: GameState
  scoreUI :: int
  livesUI :: int
  rng :: nat
  timeouts :: "Timer list"
  reports :: "(int \<times> int \<times> int) list"
  mathObj :: MathObject

section \<open>Spawning\<close>

text \<open>The cumulative-probability table of \<open>spawnFruit\<close> for a non-bomb projectile.\<close>

definition fruitKind :: "real \<Rightarrow> FruitType \<times> string \<times> string \<times> real" where
  "fruitKind rand =
     (if rand < 15 / 100 then (banana, ''#fbc02d'', ''banana'', 60)
      else if rand < 30 / 100 then (orange, ''#f57c00'', ''orange'', 60)
      else if rand < 45 / 100 then (watermelon, ''#d32f2f'', ''watermelon'', 75)
      else if rand < 60 / 100 then (pineapple, ''#fbc02d'', ''pineapple'', 70)
      else if rand < 75 / 100 then (peach, ''#ff8a65'', ''peach'', 60)
      else if rand < 90 / 100 then (coconut, ''#eeeeee'', ''coconut'', 65)
      else (grapes, ''#7b1fa2'', ''grapes'', 55))"

text \<open>
  The launch solve of \<open>spawnFruit\<close>, one definition per \<open>const\<close> of the source.
  \<open>rand\<close> is the value of the \<open>Math.random()\<close> call in the expression.
\<close>

definition startY :: "real \<Rightarrow> real" where
  "startY height = height + 100"

definition peakHeight :: "real \<Rightarrow> real \<Rightarrow> real" where
  "peakHeight height rand = height * (15 / 100 + rand * (2 / 10))"

definition launchGravity :: "real \<Rightarrow> real" where
  "launchGravity difficultyMultiplier = GRAVITY * (1 + (difficultyMultiplier - 1) * (1 / 10))"

definition launchVy :: "real \<Rightarrow> real \<Rightarrow> real" where
  "launchVy gravity displacementY = - sqrt (2 * gravity * displacementY)"

text \<open>
  \<open>spawnFruit(width, height, forceBomb, difficultyMultiplier)\<close>.  \<open>forceBomb || Math.random() <
  bombChance\<close> short-circuits, so the first draw is made only when \<open>forceBomb\<close> is false; the
  kind draw is made only for a non-bomb.  \<open>dateNow\<close> is the value of \<open>Date.now()\<close>.
\<close>

definition spawnFruit ::
  "(nat \<Rightarrow> real) \<Rightarrow> real \<Rightarrow> real \<Rightarrow> real \<Rightarrow> bool \<Rightarrow> real \<Rightarrow> State \<Rightarrow> State" where
  "spawnFruit rnd dateNow width height forceBomb difficultyMultiplier s =
     (let bombChance = min (15 / 100 + (difficultyMultiplier - 1) * (5 / 100)) (25 / 100);
          isBomb = (forceBomb \<or> rnd (rng s) < bombChance);
          k1 = (if forceBomb then rng s else rng s + 1);
          startX = width * (15 / 100) + rnd k1 * (width * (7 / 10));
          centerX = width / 2;
          direction = (if startX < centerX then 1 else - 1);
          targetX = centerX + rnd (k1 + 1) * 200 * direction;
          peak = peakHeight height (rnd (k1 + 2));
          displacementY = startY height - peak;
          gravity = launchGravity difficultyMultiplier;
          vy = launchVy gravity displacementY;
          timeToPeak = - vy / gravity;
          vx = (targetX - startX) / timeToPeak;
          (type, color, emoji, radius) =
             (if isBomb then (bomb, ''#222'', ''bomb'', 65) else fruitKind (rnd (k1 + 3)));
          k2 = (if isBomb then k1 + 3 else k1 + 4);
          fruit = \<lparr> f_id = dateNow + rnd k2, f_x = startX, f_y = startY height,
                    f_vx = vx, f_vy = vy, f_rotation = 0,
                    f_rotationSpeed = (rnd (k2 + 1) - 1 / 2) * 4 * difficultyMultiplier,
                    f_type = type, f_radius = radius, f_sliced = False,
                    f_color = color, f_emoji = emoji \<rparr>
      in s\<lparr> fruitsRef := fruitsRef s @ [fruit], rng := k2 + 2 \<rparr>)"

text \<open>
  \<open>spawnWave(width, height, difficulty)\<close>: \<open>count = 3 + Math.floor(Math.random() * 3)\<close>, then one
  \<open>setTimeout\<close> per \<open>i < count\<close> with delay \<open>i * 100\<close>.
\<close>

definition waveCount :: "real \<Rightarrow> int" where
  "waveCount rand = 3 + \<lfloor>rand * 3\<rfloor>"

definition spawnWave :: "(nat \<Rightarrow> real) \<Rightarrow> real \<Rightarrow> real \<Rightarrow> real \<Rightarrow> State \<Rightarrow> State" where
  "spawnWave rnd width height difficulty s =
     (let count = waveCount (rnd (rng s))
      in s\<lparr> rng := rng s + 1,
            timeouts := timeouts s @
              map (\<lambda>i. \<lparr> tm_delay = real i * 100, tm_width = width,
                         tm_height = height, tm_difficulty = difficulty \<rparr>)
                  [0 ..< nat count] \<rparr>)"

section \<open>Library functions of the host language\<close>

text \<open>
  \<open>Math.atan2(y, x)\<close> on reals: the angle in \<open>(-\<pi>, \<pi>]\<close> of the vector \<open>(x, y)\<close>, and 0 at the
  origin.
\<close>

definition atan2 :: "real \<Rightarrow> real \<Rightarrow> real" where
  "atan2 y x =
     (if 0 < x then arctan (y / x)
      else if x < 0 \<and> 0 \<le> y then arctan (y / x) + pi
      else if x < 0 \<and> y < 0 then arctan (y / x) - pi
      else if 0 < y then pi / 2
      else if y < 0 then - (pi / 2)
      else 0)"

text \<open>\<open>Array.prototype.splice(i, 1)\<close>: remove the element at index \<open>i\<close>.\<close>

definition splice1 :: "nat \<Rightarrow> 'a list \<Rightarrow> 'a list" where
  "splice1 i xs = take i xs @ drop (Suc i) xs"

text \<open>\<open>Array.prototype.slice(-4)\<close>: the last four elements, or all of them when there are fewer.\<close>

definition recentPoints :: "Point list \<Rightarrow> Point list" where
  "recentPoints trail = drop (length trail - 4) trail"

text \<open>Decimal rendering of a whole number inside a template literal.\<close>

function show_nat :: "nat \<Rightarrow> string" where
  "show_nat n =
     (if n < 10 then [char_of (48 + n)]
      else show_nat (n div 10) @ [char_of (48 + n mod 10)])"
  by pat_completeness auto
termination
  by (relation "measure id") auto

definition show_int :: "int \<Rightarrow> string" where
  "show_int i = (if i < 0 then ''-'' @ show_nat (nat (- i)) else show_nat (nat i))"

section \<open>Effects\<close>

text \<open>
  \<open>createExplosion(x, y, color)\<close>: twenty particles; each iteration draws \<open>angle\<close>, \<open>speed\<close>,
  \<open>id\<close> and \<open>size\<close> in this order.  The first argument of \<open>explosionLoop\<close> is the number of
  iterations still to run.
\<close>

definition pushParticle :: "(nat \<Rightarrow> real) \<Rightarrow> real \<Rightarrow> real \<Rightarrow> string \<Rightarrow> State \<Rightarrow> State" where
  "pushParticle rnd x y color s =
     (let k = rng s;
          angle = rnd k * m_PI (mathObj s) * 2;
          speed = rnd (k + 1) * 400 + 100
      in s\<lparr> particlesRef := particlesRef s @
               [\<lparr> pt_id = rnd (k + 2), pt_x = x, pt_y = y,
                   pt_vx = m_cos (mathObj s) angle * speed,
                   pt_vy = m_sin (mathObj s) angle * speed,
                   pt_life = 1, pt_color = color, pt_size = rnd (k + 3) * 8 + 4 \<rparr>],
            rng := k + 4 \<rparr>)"

fun explosionLoop :: "nat \<Rightarrow> (nat \<Rightarrow> real) \<Rightarrow> real \<Rightarrow> real \<Rightarrow> string \<Rightarrow> State \<Rightarrow> State" where
  "explosionLoop 0 rnd x y color s = s"
| "explosionLoop (Suc n) rnd x y color s = explosionLoop n rnd x y color (pushParticle rnd x y color s)"

definition createExplosion :: "(nat \<Rightarrow> real) \<Rightarrow> real \<Rightarrow> real \<Rightarrow> string \<Rightarrow> State \<Rightarrow> State" where
  "createExplosion rnd x y color s = explosionLoop 20 rnd x y color s"

definition createFloatingText ::
  "(nat \<Rightarrow> real) \<Rightarrow> real \<Rightarrow> real \<Rightarrow> string \<Rightarrow> string \<Rightarrow> real \<Rightarrow> State \<Rightarrow> State" where
  "createFloatingText rnd x y text color scale s =
     s\<lparr> textsRef := textsRef s @
          [\<lparr> t_id = rnd (rng s), t_x = x, t_y = y, t_text = text, t_life = 1,
              t_color = color, t_scale = scale, t_vy = - 100 \<rparr>],
        rng := rng s + 1 \<rparr>"

text \<open>\<open>createDebris(fruit, cutAngle)\<close>: the two halves, pushed left first.\<close>

definition pushForce :: real where "pushForce = 200"

definition debrisLeft :: "MathObject \<Rightarrow> real \<Rightarrow> Fruit \<Rightarrow> real \<Rightarrow> Debris" where
  "debrisLeft Math ident fruit cutAngle =
     (let perpAngle = cutAngle - m_PI Math / 2
      in \<lparr> d_id = ident, d_x = f_x fruit, d_y = f_y fruit,
            d_vx = f_vx fruit + m_cos Math perpAngle * pushForce,
            d_vy = f_vy fruit + m_sin Math perpAngle * pushForce,
            d_rotation = f_rotation fruit, d_rotationSpeed = - 3,
            d_emoji = f_emoji fruit, d_radius = f_radius fruit, d_cutAngle = cutAngle,
            d_side = left, d_life = 1, d_opacity = 1 \<rparr>)"

definition debrisRight :: "MathObject \<Rightarrow> real \<Rightarrow> Fruit \<Rightarrow> real \<Rightarrow> Debris" where
  "debrisRight Math ident fruit cutAngle =
     (let perpAngle = cutAngle - m_PI Math / 2
      in \<lparr> d_id = ident, d_x = f_x fruit, d_y = f_y fruit,
            d_vx = f_vx fruit + m_cos Math (perpAngle + m_PI Math) * pushForce,
            d_vy = f_vy fruit + m_sin Math (perpAngle + m_PI Math) * pushForce,
            d_rotation = f_rotation fruit, d_rotationSpeed = 3,
            d_emoji = f_emoji fruit, d_radius = f_radius fruit, d_cutAngle = cutAngle,
            d_side = right, d_life = 1, d_opacity = 1 \<rparr>)"

definition createDebris :: "(nat \<Rightarrow> real) \<Rightarrow> Fruit \<Rightarrow> real \<Rightarrow> State \<Rightarrow> State" where
  "createDebris rnd fruit cutAngle s =
     s\<lparr> debrisRef := debrisRef s @
          [debrisLeft (mathObj s) (rnd (rng s)) fruit cutAngle,
           debrisRight (mathObj s) (rnd (rng s + 1)) fruit cutAngle],
        rng := rng s + 2 \<rparr>"

text \<open>
  \<open>resetGame()\<close>; \<open>now\<close> is the value of \<open>performance.now()\<close>.  The function leaves
  \<open>lastSliceTimeRef\<close> and \<open>currentComboRef\<close> as they are.
\<close>

definition resetGame :: "real \<Rightarrow> State \<Rightarrow> State" where
  "resetGame now s =
     s\<lparr> scoreRef := 0, livesRef := MAX_LIVES, slicedCountRef := 0, bombsHitRef := 0,
        fruitsRef := [], particlesRef := [], debrisRef := [], trailRef := [], textsRef := [],
        shakeRef := 0, flashRef := 0, lastTimeRef := now, timeSinceSpawnRef := 0,
        spawnTimerRef := BASE_SPAWN_INTERVAL, scoreUI := 0, livesUI := MAX_LIVES,
        waitingForHand := True \<rparr>"

section \<open>The main loop: game logic\<close>

text \<open>\<open>difficulty = 1 + Math.min(scoreRef.current / 500, 2.0)\<close>.\<close>

definition difficultyOf :: "int \<Rightarrow> real" where
  "difficultyOf score = 1 + min (real_of_int score / 500) 2"

text \<open>The spawn policy of the loop (the block under the comment "Spawn Logic").\<close>

definition spawnLogic ::
  "(nat \<Rightarrow> real) \<Rightarrow> real \<Rightarrow> real \<Rightarrow> real \<Rightarrow> real \<Rightarrow> real \<Rightarrow> State \<Rightarrow> State" where
  "spawnLogic rnd dateNow dt width height difficulty s =
     (let s1 = s\<lparr> timeSinceSpawnRef := timeSinceSpawnRef s + dt \<rparr>
      in if timeSinceSpawnRef s1 > spawnTimerRef s1 then
           (let r = rnd (rng s1);
                s2 = s1\<lparr> rng := rng s1 + 1 \<rparr>;
                s3 = (if r < 2 / 10
                      then (spawnWave rnd width height difficulty s2)
                             \<lparr> spawnTimerRef := (BASE_SPAWN_INTERVAL + 15 / 10) / difficulty \<rparr>
                      else (spawnFruit rnd dateNow width height False difficulty s2)
                             \<lparr> spawnTimerRef := BASE_SPAWN_INTERVAL / difficulty \<rparr>)
            in s3\<lparr> timeSinceSpawnRef := 0 \<rparr>)
         else s1)"

text \<open>
  The combo timeout, checked once per tick before the projectiles are visited:
  \<open>now / 1000 - lastSliceTimeRef.current > COMBO_WINDOW\<close>, each operation on doubles.
\<close>

definition comboTimeout :: "real \<Rightarrow> State \<Rightarrow> State" where
  "comboTimeout now s =
     (if jsSub (jsDiv now 1000) (lastSliceTimeRef s) > COMBO_WINDOW
      then s\<lparr> currentComboRef := 0 \<rparr> else s)"

definition cutAngleOf :: "Point list \<Rightarrow> real" where
  "cutAngleOf trail =
     (if length trail \<ge> 3 then
        (let pHead = trail ! (length trail - 1);
             pTail = trail ! (length trail - 3)
         in atan2 (p_y pHead - p_y pTail) (p_x pHead - p_x pTail))
      else 0)"

text \<open>
  The collision test against the recent trail: a \<open>for ... of\<close> loop that sets \<open>hit\<close> and
  breaks at the first qualifying sample.
\<close>

fun hitTest :: "Point list \<Rightarrow> Fruit \<Rightarrow> bool" where
  "hitTest [] fruit = False"
| "hitTest (p # ps) fruit =
     (let hitRadius = f_radius fruit;
          dx = p_x p - f_x fruit;
          dy = p_y p - f_y fruit
      in if dx * dx + dy * dy < hitRadius * hitRadius then True else hitTest ps fruit)"

text \<open>The branch taken when the projectile that was hit is a bomb; \<open>i\<close> is its index.\<close>

definition bombBranch :: "(nat \<Rightarrow> real) \<Rightarrow> Fruit \<Rightarrow> nat \<Rightarrow> State \<Rightarrow> State" where
  "bombBranch rnd fruit i s =
     (let s1 = createExplosion rnd (f_x fruit) (f_y fruit) ''#ffffff'' s;
          s2 = s1\<lparr> bombsHitRef := bombsHitRef s1 + 1 \<rparr>;
          s3 = s2\<lparr> livesRef := livesRef s2 - 1 \<rparr>;
          s4 = s3\<lparr> currentComboRef := 0, shakeRef := 30, flashRef := 1 \<rparr>;
          s5 = s4\<lparr> livesUI := livesRef s4 \<rparr>;
          s6 = s5\<lparr> fruitsRef := splice1 i (fruitsRef s5) \<rparr>
      in if livesRef s6 \<le> 0
         then s6\<lparr> gameState := GAME_OVER,
                  reports := reports s6 @ [(scoreRef s6, slicedCountRef s6, bombsHitRef s6)] \<rparr>
         else s6)"

text \<open>The branch taken when the projectile that was hit is a fruit ("SLICE!").\<close>

definition sliceBranch :: "(nat \<Rightarrow> real) \<Rightarrow> real \<Rightarrow> real \<Rightarrow> Fruit \<Rightarrow> nat \<Rightarrow> State \<Rightarrow> State" where
  "sliceBranch rnd now cutAngle fruit0 i s =
     (let fruit = fruit0\<lparr> f_sliced := True \<rparr>;
          s1 = s\<lparr> fruitsRef := (fruitsRef s)[i := fruit] \<rparr>;
          s2 = s1\<lparr> slicedCountRef := slicedCountRef s1 + 1 \<rparr>;
          s3 = s2\<lparr> lastSliceTimeRef := jsDiv now 1000,
                    currentComboRef := currentComboRef s2 + 1 \<rparr>;
          combo = currentComboRef s3;
          (points, text, textColor, scale) =
             (if combo > 1
              then (10 + combo * 5, show_int combo @ '' COMBO!'', ''#ffeb3b'',
                    1 + real_of_int combo * (1 / 10))
              else (10, ''+10'', ''#fff'', 1));
          s4 = s3\<lparr> scoreRef := scoreRef s3 + points \<rparr>;
          s5 = s4\<lparr> scoreUI := scoreRef s4 \<rparr>;
          s6 = createExplosion rnd (f_x fruit) (f_y fruit) (f_color fruit) s5;
          s7 = createDebris rnd fruit cutAngle s6;
          s8 = createFloatingText rnd (f_x fruit) (f_y fruit - 50) text textColor scale s7
      in s8\<lparr> fruitsRef := splice1 i (fruitsRef s8) \<rparr>)"

text \<open>The explicit Euler step applied to the projectile at the top of the loop body.\<close>

definition integrate :: "real \<Rightarrow> real \<Rightarrow> Fruit \<Rightarrow> Fruit" where
  "integrate dt difficulty fruit =
     fruit\<lparr> f_x := f_x fruit + f_vx fruit * dt,
            f_y := f_y fruit + f_vy fruit * dt,
            f_vy := f_vy fruit + (GRAVITY * (1 + (difficulty - 1) * (1 / 10))) * dt,
            f_rotation := f_rotation fruit + f_rotationSpeed fruit * dt \<rparr>"

text \<open>
  The body of \<open>for (let i = fruitsRef.current.length - 1; i >= 0; i--)\<close> at index \<open>i\<close>, for an
  index inside the array.
\<close>

definition fruitStep ::
  "(nat \<Rightarrow> real) \<Rightarrow> real \<Rightarrow> real \<Rightarrow> real \<Rightarrow> real \<Rightarrow> real \<Rightarrow> nat \<Rightarrow> State \<Rightarrow> State" where
  "fruitStep rnd now dt height difficulty cutAngle i s =
     (let fruit = integrate dt difficulty (fruitsRef s ! i);
          s1 = s\<lparr> fruitsRef := (fruitsRef s)[i := fruit] \<rparr>
      in if f_y fruit > height + FRUIT_LIFETIME_Y_OFFSET \<and> f_vy fruit > 0
         then s1\<lparr> fruitsRef := splice1 i (fruitsRef s1) \<rparr>
         else if \<not> f_sliced fruit then
           (if hitTest (recentPoints (trailRef s1)) fruit then
              (if f_type fruit = bomb
               then bombBranch rnd fruit i s1
               else sliceBranch rnd now cutAngle fruit i s1)
            else s1)
         else s1)"

text \<open>
  Reading \<open>fruitsRef.current[i]\<close> outside the array yields \<open>undefined\<close>, and the first
  property access on it throws a TypeError.
\<close>

datatype error = TypeError

definition loopBody ::
  "(nat \<Rightarrow> real) \<Rightarrow> real \<Rightarrow> real \<Rightarrow> real \<Rightarrow> real \<Rightarrow> real \<Rightarrow> nat \<Rightarrow> State \<Rightarrow> error + State" where
  "loopBody rnd now dt height difficulty cutAngle i s =
     (if i < length (fruitsRef s)
      then Inr (fruitStep rnd now dt height difficulty cutAngle i s)
      else Inl TypeError)"

text \<open>
  The loop itself: \<open>fruitLoop ... n s\<close> runs the body at the indices \<open>n - 1, ..., 0\<close>, in this
  order; the source starts it at \<open>n = fruitsRef.current.length\<close>.
\<close>

fun fruitLoop ::
  "(nat \<Rightarrow> real) \<Rightarrow> real \<Rightarrow> real \<Rightarrow> real \<Rightarrow> real \<Rightarrow> real \<Rightarrow> nat \<Rightarrow> State \<Rightarrow> error + State" where
  "fruitLoop rnd now dt height difficulty cutAngle 0 s = Inr s"
| "fruitLoop rnd now dt height difficulty cutAngle (Suc i) s =
     (case loopBody rnd now dt height difficulty cutAngle i s of
        Inl e \<Rightarrow> Inl e
      | Inr s' \<Rightarrow> fruitLoop rnd now dt height difficulty cutAngle i s')"

text \<open>
  The three ageing loops that follow the projectile loop.  Each walks its array from the last
  index down, updates the entry in place and splices it out when it has expired; no entry
  depends on another, so the result is the updated entries that have not expired, in their
  original order.
\<close>

definition updateParticle :: "real \<Rightarrow> Particle \<Rightarrow> Particle" where
  "updateParticle dt p =
     p\<lparr> pt_x := pt_x p + pt_vx p * dt,
        pt_y := pt_y p + pt_vy p * dt,
        pt_vy := pt_vy p + GRAVITY * (6 / 10) * dt,
        pt_life := pt_life p - 2 * dt \<rparr>"

definition updateParticles :: "real \<Rightarrow> State \<Rightarrow> State" where
  "updateParticles dt s =
     s\<lparr> particlesRef := filter (\<lambda>p. \<not> pt_life p \<le> 0) (map (updateParticle dt) (particlesRef s)) \<rparr>"

definition updateText :: "real \<Rightarrow> FloatingText \<Rightarrow> FloatingText" where
  "updateText dt t = t\<lparr> t_y := t_y t + t_vy t * dt, t_life := t_life t - 1 * dt \<rparr>"

definition updateTexts :: "real \<Rightarrow> State \<Rightarrow> State" where
  "updateTexts dt s =
     s\<lparr> textsRef := filter (\<lambda>t. \<not> t_life t \<le> 0) (map (updateText dt) (textsRef s)) \<rparr>"

definition updateDebrisPiece :: "real \<Rightarrow> Debris \<Rightarrow> Debris" where
  "updateDebrisPiece dt d =
     (let d1 = d\<lparr> d_x := d_x d + d_vx d * dt,
                  d_y := d_y d + d_vy d * dt,
                  d_vy := d_vy d + GRAVITY * dt,
                  d_rotation := d_rotation d + d_rotationSpeed d * dt,
                  d_life := d_life d - (8 / 10) * dt \<rparr>
      in d1\<lparr> d_opacity := max 0 (d_life d1) \<rparr>)"

definition updateDebris :: "real \<Rightarrow> real \<Rightarrow> State \<Rightarrow> State" where
  "updateDebris dt height s =
     s\<lparr> debrisRef := filter (\<lambda>d. \<not> (d_y d > height + 100 \<or> d_life d \<le> 0))
                         (map (updateDebrisPiece dt) (debrisRef s)) \<rparr>"

text \<open>
  The block \<open>if (gameState === GameState.PLAYING) { ... }\<close> of the loop, after the
  raise-hand gate: difficulty, spawn policy, combo timeout, cut angle, the projectile loop
  and the three ageing loops.
\<close>

definition gameLogic ::
  "(nat \<Rightarrow> real) \<Rightarrow> real \<Rightarrow> real \<Rightarrow> real \<Rightarrow> real \<Rightarrow> real \<Rightarrow> State \<Rightarrow> error + State" where
  "gameLogic rnd now dateNow dt width height s =
     (let difficulty = difficultyOf (scoreRef s);
          s1 = spawnLogic rnd dateNow dt width height difficulty s;
          s2 = comboTimeout now s1;
          cutAngle = cutAngleOf (trailRef s2)
      in case fruitLoop rnd now dt height difficulty cutAngle (length (fruitsRef s2)) s2 of
           Inl e \<Rightarrow> Inl e
         | Inr s3 \<Rightarrow> Inr (updateDebris dt height (updateTexts dt (updateParticles dt s3))))"

section \<open>The main loop: one animation frame\<close>

text \<open>
  What one frame reads from its environment: \<open>performance.now()\<close>, \<open>Date.now()\<close>, the canvas
  size (\<open>None\<close> when the canvas, the video element or the 2D context is missing), whether
  camera, model and landmarker are ready, and for every detected hand its landmark 8 in
  normalised coordinates (\<open>None\<close> when the landmark is absent).
\<close>

record FrameInput =
  in_now :: real
  in_dateNow :: real
  in_canvas :: "(real \<times> real) option"
  in_visionReady :: bool
  in_landmarks :: "(real \<times> real) option list"

definition handPointsOf :: "FrameInput \<Rightarrow> real \<Rightarrow> real \<Rightarrow> Point list" where
  "handPointsOf inp width height =
     (if in_visionReady inp
      then concat (map (\<lambda>indexTip. case indexTip of
                           None \<Rightarrow> []
                         | Some (tx, ty) \<Rightarrow>
                             [\<lparr> p_x = (1 - tx) * width, p_y = ty * height, p_life = None \<rparr>])
                       (in_landmarks inp))
      else [])"

text \<open>The screen shake draws two random offsets for the renderer and decays the magnitude.\<close>

definition screenShake :: "real \<Rightarrow> State \<Rightarrow> State" where
  "screenShake dt s =
     (if shakeRef s > 0
      then s\<lparr> rng := rng s + 2, shakeRef := max 0 (shakeRef s - 60 * dt) \<rparr>
      else s)"

text \<open>
  Trail ageing: every sample loses \<open>60 * dt\<close> of life and is spliced out at \<open>life <= 0\<close>.  A
  sample without a life would never compare \<open><= 0\<close> and stays.
\<close>

definition ageTrail :: "real \<Rightarrow> Point list \<Rightarrow> Point list" where
  "ageTrail dt trail =
     filter (\<lambda>p. case p_life p of None \<Rightarrow> True | Some l \<Rightarrow> \<not> l \<le> 0)
            (map (\<lambda>p. p\<lparr> p_life := map_option (\<lambda>l. l - 60 * dt) (p_life p) \<rparr>) trail)"

definition flashEffect :: "real \<Rightarrow> State \<Rightarrow> State" where
  "flashEffect dt s =
     (if flashRef s > 0 then s\<lparr> flashRef := max 0 (flashRef s - 2 * dt) \<rparr> else s)"

text \<open>
  The callback \<open>loop\<close>.  Drawing is left out: it reads the state and writes the canvas only.
  The early \<open>return\<close> of the raise-hand gate skips the game logic and the flash decay.
\<close>

definition loop :: "(nat \<Rightarrow> real) \<Rightarrow> FrameInput \<Rightarrow> State \<Rightarrow> error + State" where
  "loop rnd inp s =
     (let now = in_now inp;
          dt = min ((now - lastTimeRef s) / 1000) (1 / 10);
          s0 = s\<lparr> lastTimeRef := now \<rparr>
      in case in_canvas inp of
           None \<Rightarrow> Inr s0
         | Some (width, height) \<Rightarrow>
             (let handPoints = handPointsOf inp width height;
                  s1 = s0\<lparr> cursorRef := (case handPoints of
                                            [] \<Rightarrow> None
                                          | p # _ \<Rightarrow> Some (p_x p, p_y p)) \<rparr>;
                  s2 = screenShake dt s1;
                  s3 = (case handPoints of
                          [] \<Rightarrow> s2
                        | p # _ \<Rightarrow>
                            if gameState s2 = PLAYING
                            then s2\<lparr> trailRef := trailRef s2 @
                                       [\<lparr> p_x = p_x p, p_y = p_y p, p_life = Some TRAIL_LENGTH \<rparr>] \<rparr>
                            else s2);
                  s4 = s3\<lparr> trailRef := ageTrail dt (trailRef s3) \<rparr>
              in if gameState s4 = PLAYING then
                   (if waitingForHand s4 \<and> handPoints = [] then Inr s4
                    else
                      (let s5 = (if waitingForHand s4 then s4\<lparr> waitingForHand := False \<rparr> else s4)
                       in case gameLogic rnd now (in_dateNow inp) dt width height s5 of
                            Inl e \<Rightarrow> Inl e
                          | Inr s6 \<Rightarrow> Inr (flashEffect dt s6)))
                 else Inr (flashEffect dt s4)))"

section \<open>Sessions\<close>

text \<open>
  What happens to the component between two frames: a frame callback runs, the oldest
  pending \<open>setTimeout\<close> callback of \<open>spawnWave\<close> fires, or the player starts a game
  (\<open>startGame\<close> sets the state to PLAYING and the effect on \<open>gameState\<close> calls \<open>resetGame\<close>).
\<close>

datatype Event = Frame FrameInput | Timeout real | StartGame real

definition fireTimeout :: "(nat \<Rightarrow> real) \<Rightarrow> real \<Rightarrow> State \<Rightarrow> State" where
  "fireTimeout rnd dateNow s =
     (case timeouts s of
        [] \<Rightarrow> s
      | tm # rest \<Rightarrow>
          spawnFruit rnd dateNow (tm_width tm) (tm_height tm) False (tm_difficulty tm)
            (s\<lparr> timeouts := rest \<rparr>))"

definition startGame :: "real \<Rightarrow> State \<Rightarrow> State" where
  "startGame now s =
     (if gameState s = PLAYING then s else resetGame now (s\<lparr> gameState := PLAYING \<rparr>))"

fun step :: "(nat \<Rightarrow> real) \<Rightarrow> Event \<Rightarrow> State \<Rightarrow> error + State" where
  "step rnd (Frame inp) s = loop rnd inp s"
| "step rnd (Timeout dateNow) s = Inr (fireTimeout rnd dateNow s)"
| "step rnd (StartGame now) s = Inr (startGame now s)"

fun run :: "(nat \<Rightarrow> real) \<Rightarrow> Event list \<Rightarrow> State \<Rightarrow> error + State" where
  "run rnd [] s = Inr s"
| "run rnd (e # es) s = (case step rnd e s of Inl err \<Rightarrow> Inl err | Inr s' \<Rightarrow> run rnd es s')"

text \<open>
  A \<open>Math\<close> object of a binary64 host: \<open>PI\<close> is the double nearest to \<open>\<pi>\<close>, and \<open>cos\<close> and \<open>sin\<close>
  return the double nearest to the exact value.
\<close>

definition hostMath :: MathObject where
  "hostMath = \<lparr> m_PI = toDouble pi, m_cos = (\<lambda>x. toDouble (cos x)),
                m_sin = (\<lambda>x. toDouble (sin x)) \<rparr>"

text \<open>
  The component as mounted: the initial values of the refs and of the React state, on that
  host.
\<close>

definition mounted :: State where
  "mounted =
     \<lparr> scoreRef = 0, livesRef = MAX_LIVES, slicedCountRef = 0, bombsHitRef = 0,
       timeSinceSpawnRef = 0, spawnTimerRef = BASE_SPAWN_INTERVAL, lastSliceTimeRef = 0,
       currentComboRef = 0, fruitsRef = [], particlesRef = [], debrisRef = [], trailRef = [],
       textsRef = [], shakeRef = 0, flashRef = 0, cursorRef = None, lastTimeRef = 0,
       waitingForHand = False, gameState = MENU, scoreUI = 0, livesUI = MAX_LIVES,
       rng = 0, timeouts = [], reports = [], mathObj = hostMath \<rparr>"

section \<open>The commentary service (services/geminiService.ts, App.tsx)\<close>








section \<open>Derived descriptions used in the proofs\<close>

text \<open>The particles that \<open>explosionLoop\<close> appends when it starts at draw \<open>k\<close>.\<close>

fun explosionParticles ::
  "nat \<Rightarrow> MathObject \<Rightarrow> (nat \<Rightarrow> real) \<Rightarrow> nat \<Rightarrow> real \<Rightarrow> real \<Rightarrow> string \<Rightarrow> Particle list" where
  "explosionParticles 0 Math rnd k x y color = []"
| "explosionParticles (Suc n) Math rnd k x y color =
     \<lparr> pt_id = rnd (k + 2), pt_x = x, pt_y = y,
       pt_vx = m_cos Math (rnd k * m_PI Math * 2) * (rnd (k + 1) * 400 + 100),
       pt_vy = m_sin Math (rnd k * m_PI Math * 2) * (rnd (k + 1) * 400 + 100),
       pt_life = 1, pt_color = color, pt_size = rnd (k + 3) * 8 + 4 \<rparr>
     # explosionParticles n Math rnd (k + 4) x y color"

text \<open>
  The effect of a bomb hit and of a slice on everything but the live list: the two branches
  of the loop body with the live list put back.
\<close>

definition bombEffect :: "(nat \<Rightarrow> real) \<Rightarrow> Fruit \<Rightarrow> State \<Rightarrow> State" where
  "bombEffect rnd fruit s = (bombBranch rnd fruit 0 s)\<lparr> fruitsRef := fruitsRef s \<rparr>"

definition sliceEffect :: "(nat \<Rightarrow> real) \<Rightarrow> real \<Rightarrow> real \<Rightarrow> Fruit \<Rightarrow> State \<Rightarrow> State" where
  "sliceEffect rnd now cutAngle fruit s =
     (sliceBranch rnd now cutAngle fruit 0 s)\<lparr> fruitsRef := fruitsRef s \<rparr>"

text \<open>
  The three tests of the loop body on an integrated projectile: it has fallen below the
  screen; it is struck (not fallen, unsliced and hit by the recent trail); it survives the
  tick.
\<close>

definition fallen :: "real \<Rightarrow> Fruit \<Rightarrow> bool" where
  "fallen height fruit \<longleftrightarrow> f_y fruit > height + FRUIT_LIFETIME_Y_OFFSET \<and> f_vy fruit > 0"

definition struck :: "Point list \<Rightarrow> real \<Rightarrow> Fruit \<Rightarrow> bool" where
  "struck trail height fruit \<longleftrightarrow>
     \<not> fallen height fruit \<and> \<not> f_sliced fruit \<and> hitTest (recentPoints trail) fruit"

definition survives :: "Point list \<Rightarrow> real \<Rightarrow> Fruit \<Rightarrow> bool" where
  "survives trail height fruit \<longleftrightarrow> \<not> fallen height fruit \<and> \<not> struck trail height fruit"

text \<open>The one outcome of an integrated projectile, applied to the rest of the state.\<close>

definition resolve :: "(nat \<Rightarrow> real) \<Rightarrow> real \<Rightarrow> real \<Rightarrow> real \<Rightarrow> Fruit \<Rightarrow> State \<Rightarrow> State" where
  "resolve rnd now height cutAngle fruit s =
     (if struck (trailRef s) height fruit
      then (if f_type fruit = bomb
            then bombEffect rnd fruit s
            else sliceEffect rnd now cutAngle fruit s)
      else s)"

text \<open>
  The projectile loop as a fold: each projectile is integrated and resolved once, the newest
  (last) projectile first, and the live list keeps the integrated survivors in their order.
\<close>

definition outcomesNewestFirst ::
  "(nat \<Rightarrow> real) \<Rightarrow> real \<Rightarrow> real \<Rightarrow> real \<Rightarrow> real \<Rightarrow> real \<Rightarrow> State \<Rightarrow> State" where
  "outcomesNewestFirst rnd now dt height difficulty cutAngle s =
     (foldr (\<lambda>fruit. resolve rnd now height cutAngle (integrate dt difficulty fruit))
            (fruitsRef s) s)
       \<lparr> fruitsRef := filter (survives (trailRef s) height)
                             (map (integrate dt difficulty) (fruitsRef s)) \<rparr>"

text \<open>
  The same with the order of C4 as the spec words it: outcomes applied in insertion order,
  the oldest-spawned projectile first.
\<close>

definition outcomesInsertionOrder ::
  "(nat \<Rightarrow> real) \<Rightarrow> real \<Rightarrow> real \<Rightarrow> real \<Rightarrow> real \<Rightarrow> real \<Rightarrow> State \<Rightarrow> State" where
  "outcomesInsertionOrder rnd now dt height difficulty cutAngle s =
     (foldl (\<lambda>s' fruit. resolve rnd now height cutAngle (integrate dt difficulty fruit) s')
            s (fruitsRef s))
       \<lparr> fruitsRef := filter (survives (trailRef s) height)
                             (map (integrate dt difficulty) (fruitsRef s)) \<rparr>"

text \<open>
  A run keeps a combo chain alive when at every frame the value that the combo timeout
  computes, \<open>now / 1000 - lastSliceTime\<close> on doubles, does not exceed \<open>COMBO_WINDOW\<close>, no frame
  hits a bomb and no new game is started.
\<close>

fun chainAlive :: "(nat \<Rightarrow> real) \<Rightarrow> Event list \<Rightarrow> State \<Rightarrow> bool" where
  "chainAlive rnd [] s = True"
| "chainAlive rnd (Frame inp # es) s =
     (jsSub (jsDiv (in_now inp) 1000) (lastSliceTimeRef s) \<le> COMBO_WINDOW \<and>
      (case loop rnd inp s of
         Inl err \<Rightarrow> False
       | Inr s' \<Rightarrow> bombsHitRef s' = bombsHitRef s \<and> chainAlive rnd es s'))"
| "chainAlive rnd (Timeout dateNow # es) s = chainAlive rnd es (fireTimeout rnd dateNow s)"
| "chainAlive rnd (StartGame now # es) s = False"

text \<open>The fields that the counters of the next frame depend on.\<close>

definition snapshot ::
  "State \<Rightarrow> real \<times> real \<times> GameState \<times> bool \<times> Point list \<times> Fruit list \<times> int \<times> real \<times> real
           \<times> real \<times> int \<times> int \<times> int" where
  "snapshot s = (lastTimeRef s, shakeRef s, gameState s, waitingForHand s, trailRef s,
                 fruitsRef s,
                 scoreRef s, timeSinceSpawnRef s, spawnTimerRef s, lastSliceTimeRef s,
                 currentComboRef s, slicedCountRef s, bombsHitRef s)"

section \<open>Concrete inputs\<close>

text \<open>
  Two constant tapes for \<open>Math.random()\<close>, projectiles, trails, sessions and frames used as
  concrete inputs, and a commentary service that is down.
\<close>

definition tapeLow :: "nat \<Rightarrow> real" where "tapeLow n = 1 / 10"

definition tapeHalf :: "nat \<Rightarrow> real" where "tapeHalf n = 1 / 2"

definition aboutToSpawn :: State where
  "aboutToSpawn = mounted\<lparr> gameState := PLAYING, timeSinceSpawnRef := 75 / 100 \<rparr>"

definition bombAt :: "real \<Rightarrow> real \<Rightarrow> Fruit" where
  "bombAt x y =
     \<lparr> f_id = 0, f_x = x, f_y = y, f_vx = 0, f_vy = 0, f_rotation = 0, f_rotationSpeed = 0,
       f_type = bomb, f_radius = 65, f_sliced = False, f_color = ''#222'', f_emoji = ''bomb'' \<rparr>"

definition grapesAt :: "real \<Rightarrow> real \<Rightarrow> Fruit" where
  "grapesAt x y =
     \<lparr> f_id = 0, f_x = x, f_y = y, f_vx = 0, f_vy = 0, f_rotation = 0, f_rotationSpeed = 0,
       f_type = grapes, f_radius = 55, f_sliced = False, f_color = ''#7b1fa2'',
       f_emoji = ''grapes'' \<rparr>"

definition trailAt :: "real \<Rightarrow> real \<Rightarrow> Point list" where
  "trailAt x y = [\<lparr> p_x = x, p_y = y, p_life = Some TRAIL_LENGTH \<rparr>]"

definition playing :: State where
  "playing = mounted\<lparr> gameState := PLAYING, lastTimeRef := 1000 \<rparr>"

definition lastLife :: State where
  "lastLife = playing\<lparr> livesRef := 1, livesUI := 1, bombsHitRef := 2,
                        fruitsRef := [bombAt 400 300, bombAt 400 300],
                        trailRef := trailAt 400 300 \<rparr>"

definition handAtCentre :: FrameInput where
  "handAtCentre =
     \<lparr> in_now = 1016, in_dateNow = 0, in_canvas = Some (800, 600), in_visionReady = True,
       in_landmarks = [Some (1 / 2, 1 / 2)] \<rparr>"

definition sliceScene :: State where
  "sliceScene = playing\<lparr> fruitsRef := [grapesAt 400 300], trailRef := trailAt 400 300 \<rparr>"


definition fallenScene :: State where
  "fallenScene = playing\<lparr> fruitsRef := [(grapesAt 400 800)\<lparr> f_vy := 100 \<rparr>],
                            trailRef := trailAt 400 300 \<rparr>"






definition mixedScene :: State where
  "mixedScene = playing\<lparr> fruitsRef := [grapesAt 400 300, bombAt 400 300],
                           trailRef := trailAt 400 300 \<rparr>"

definition threeGrapes :: State where
  "threeGrapes = mounted\<lparr> gameState := PLAYING,
                            fruitsRef := [grapesAt 100 300, grapesAt 400 300, grapesAt 700 300] \<rparr>"

definition swipeAt :: "real \<Rightarrow> real \<Rightarrow> FrameInput" where
  "swipeAt now tx =
     \<lparr> in_now = now, in_dateNow = 0, in_canvas = Some (800, 600), in_visionReady = True,
       in_landmarks = [Some (tx, 1 / 2)] \<rparr>"

section \<open>Double-precision arithmetic: the values the examples use\<close>

lemma binade_eq:
  assumes "0 < x" and "2 powi e \<le> x" and "x < 2 powi (e + 1)"
  shows "binade x = e"
proof -
  have p: "(2::real) powr (of_int k) = 2 powi k" for k
    by (simp add: powr_real_of_int power_int_def inverse_eq_divide power_one_over)
  have "\<lfloor>log 2 x\<rfloor> = e"
    using assms p[of e] p[of "e + 1"] by (simp add: floor_log_eq_powr_iff)
  then show ?thesis using assms(1) by (simp add: binade_def)
qed

lemma toDouble_eval:
  assumes "0 < x" and "2 powi e \<le> x" and "x < 2 powi (e + 1)"
  shows "toDouble x = of_int (roundTiesToEven (x / 2 powi (e - 52))) * 2 powi (e - 52)"
  using binade_eq[OF assms] assms(1) by (simp add: toDouble_def)

lemma window_value: "COMBO_WINDOW = 5404319552844595 / 2 ^ 54"
  unfolding COMBO_WINDOW_def
  by (subst toDouble_eval[where e = "- 2"]) (simp_all add: roundTiesToEven_def power_int_def Let_def power_one_over)

lemma ms_100: "jsDiv 100 1000 = 7205759403792794 / 2 ^ 56"
  unfolding jsDiv_def
  by (subst toDouble_eval[where e = "- 4"]) (simp_all add: roundTiesToEven_def power_int_def Let_def power_one_over)

lemma ms_400: "jsDiv 400 1000 = 7205759403792794 / 2 ^ 54"
  unfolding jsDiv_def
  by (subst toDouble_eval[where e = "- 2"]) (simp_all add: roundTiesToEven_def power_int_def Let_def power_one_over)

lemma ms_125: "jsDiv 125 1000 = 1 / 8"
  unfolding jsDiv_def
  by (subst toDouble_eval[where e = "- 3"]) (simp_all add: roundTiesToEven_def power_int_def Let_def power_one_over)

lemma ms_375: "jsDiv 375 1000 = 3 / 8"
  unfolding jsDiv_def
  by (subst toDouble_eval[where e = "- 2"]) (simp_all add: roundTiesToEven_def power_int_def Let_def power_one_over)

lemma ms_500: "jsDiv 500 1000 = 1 / 2"
  unfolding jsDiv_def
  by (subst toDouble_eval[where e = "- 1"]) (simp_all add: roundTiesToEven_def power_int_def Let_def power_one_over)

lemma ms_1016: "jsDiv 1016 1000 = 4575657221408424 / 2 ^ 52"
  unfolding jsDiv_def
  by (subst toDouble_eval[where e = 0]) (simp_all add: roundTiesToEven_def power_int_def Let_def power_one_over)

lemma gap_100: "jsSub (jsDiv 100 1000) 0 = 7205759403792794 / 2 ^ 56"
  unfolding jsSub_def ms_100
  by (subst toDouble_eval[where e = "- 4"]) (simp_all add: roundTiesToEven_def power_int_def Let_def power_one_over)

lemma gap_100_400: "jsSub (jsDiv 400 1000) (jsDiv 100 1000) = 5404319552844596 / 2 ^ 54"
  unfolding jsSub_def ms_100 ms_400
  by (subst toDouble_eval[where e = "- 2"]) (simp_all add: roundTiesToEven_def power_int_def Let_def power_one_over)

lemma gap_125: "jsSub (jsDiv 125 1000) 0 = 1 / 8"
  unfolding jsSub_def ms_125
  by (subst toDouble_eval[where e = "- 3"]) (simp_all add: roundTiesToEven_def power_int_def Let_def power_one_over)

lemma gap_125_375: "jsSub (jsDiv 375 1000) (jsDiv 125 1000) = 1 / 4"
  unfolding jsSub_def ms_125 ms_375
  by (subst toDouble_eval[where e = "- 2"]) (simp_all add: roundTiesToEven_def power_int_def Let_def power_one_over)

lemma gap_375_500: "jsSub (jsDiv 500 1000) (jsDiv 375 1000) = 1 / 8"
  unfolding jsSub_def ms_375 ms_500
  by (subst toDouble_eval[where e = "- 3"]) (simp_all add: roundTiesToEven_def power_int_def Let_def power_one_over)

lemma gap_1016: "jsSub (jsDiv 1016 1000) 0 = 4575657221408424 / 2 ^ 52"
  unfolding jsSub_def ms_1016
  by (subst toDouble_eval[where e = 0]) (simp_all add: roundTiesToEven_def power_int_def Let_def power_one_over)

text \<open>The tests of the combo timeout at those times.\<close>

lemma gap_tests:
  "\<not> COMBO_WINDOW < jsSub (jsDiv 100 1000) 0"
  "COMBO_WINDOW < jsSub (jsDiv 400 1000) (jsDiv 100 1000)"
  "\<not> COMBO_WINDOW < jsSub (jsDiv 125 1000) 0"
  "\<not> COMBO_WINDOW < jsSub (jsDiv 375 1000) (jsDiv 125 1000)"
  "\<not> COMBO_WINDOW < jsSub (jsDiv 500 1000) (jsDiv 375 1000)"
  "COMBO_WINDOW < jsSub (jsDiv 1016 1000) 0"
  by (simp_all add: window_value gap_100 gap_100_400 gap_125 gap_125_375 gap_375_500 gap_1016)

lemma gap_within:
  "jsSub (jsDiv 125 1000) 0 \<le> COMBO_WINDOW"
  "jsSub (jsDiv 375 1000) (jsDiv 125 1000) \<le> COMBO_WINDOW"
  "jsSub (jsDiv 500 1000) (jsDiv 375 1000) \<le> COMBO_WINDOW"
  by (simp_all add: window_value gap_125 gap_125_375 gap_375_500)

section \<open>Spawning: wave size and spawn interval\<close>

lemma waveCount_range: "0 \<le> r \<Longrightarrow> r < 1 \<Longrightarrow> waveCount r \<in> {3, 4, 5}"
proof -
  assume a: "0 \<le> r" "r < 1"
  have "0 \<le> \<lfloor>r * 3\<rfloor>" using a by simp
  moreover have "\<lfloor>r * 3\<rfloor> < 3" using a by (simp add: floor_less_iff)
  ultimately have "\<lfloor>r * 3\<rfloor> = 0 \<or> \<lfloor>r * 3\<rfloor> = 1 \<or> \<lfloor>r * 3\<rfloor> = 2" by arith
  then show ?thesis unfolding waveCount_def by auto
qed

text \<open>
  C6.  The claim: \<open>spawnWave\<close> schedules between 3 and 6 single spawns, and each of 3, 4, 5 and
  6 is attained for some random draw.  The code: for every draw in \<open>[0, 1)\<close> the number of
  callbacks that \<open>spawnWave\<close> schedules is 3, 4 or 5, and never 6, although the comment above
  the computation says "Spawn 3-6 fruits at once".
\<close>

theorem spawnWave_schedules_3_to_5:
  assumes "0 \<le> rnd (rng s)" and "rnd (rng s) < 1"
  shows "length (timeouts (spawnWave rnd width height difficulty s)) - length (timeouts s) \<in> {3, 4, 5}
         \<and> length (timeouts (spawnWave rnd width height difficulty s)) - length (timeouts s) \<noteq> 6"
  using waveCount_range[OF assms] by (auto simp: spawnWave_def Let_def)

theorem spawnWave_schedules_3_to_5_witness:
  "0 \<le> tapeHalf (rng mounted) \<and> tapeHalf (rng mounted) < 1 \<and>
   length (timeouts (spawnWave tapeHalf 800 600 1 mounted)) - length (timeouts mounted) \<in> {3, 4, 5} \<and>
   length (timeouts (spawnWave tapeHalf 800 600 1 mounted)) - length (timeouts mounted) \<noteq> 6"
proof -
  have h1: "0 \<le> tapeHalf (rng mounted)" and h2: "tapeHalf (rng mounted) < 1"
    by (simp_all add: tapeHalf_def)
  show ?thesis
    using h1 h2
      spawnWave_schedules_3_to_5[where rnd = tapeHalf and s = mounted, OF h1 h2, of 800 600 1]
    by blast
qed

lemma spawnFruit_spawnTimer [simp]:
  "spawnTimerRef (spawnFruit rnd t w h fb d s) = spawnTimerRef s"
  "timeSinceSpawnRef (spawnFruit rnd t w h fb d s) = timeSinceSpawnRef s"
  by (simp_all add: spawnFruit_def Let_def split: prod.splits)

lemma spawnWave_spawnTimer [simp]:
  "spawnTimerRef (spawnWave rnd w h d s) = spawnTimerRef s"
  "timeSinceSpawnRef (spawnWave rnd w h d s) = timeSinceSpawnRef s"
  by (simp_all add: spawnWave_def Let_def)

text \<open>
  C5, as stated: the interval set after a wave is shorter than the interval set after a single
  spawn.  At difficulty 1 the wave (draw 0.1) sets 2.3 and the single spawn (draw 0.5) sets
  0.8, so the wave's interval is not the shorter one.
\<close>

theorem wave_interval_shorter_counterexample:
  "\<not> spawnTimerRef (spawnLogic tapeLow 0 (1 / 10) 800 600 1 aboutToSpawn)
       < spawnTimerRef (spawnLogic tapeHalf 0 (1 / 10) 800 600 1 aboutToSpawn)"
  by (simp add: spawnLogic_def Let_def aboutToSpawn_def mounted_def tapeLow_def tapeHalf_def
        BASE_SPAWN_INTERVAL_def)

text \<open>
  C5, amended.  Whenever the elapsed time exceeds the current interval and the difficulty is
  positive, a wave (draw below 0.2) sets the interval to \<open>(BASE_SPAWN_INTERVAL + 1.5) /
  difficulty\<close> and a single spawn sets it to \<open>BASE_SPAWN_INTERVAL / difficulty\<close>; the interval
  after a wave is the longer of the two, and the elapsed counter is 0 in both cases.
\<close>

theorem wave_interval_longer:
  assumes "timeSinceSpawnRef s + dt > spawnTimerRef s"
      and "0 < difficulty"
      and "rndW (rng s) < 2 / 10"
      and "\<not> rndS (rng s) < 2 / 10"
  shows "spawnTimerRef (spawnLogic rndW dateNow dt width height difficulty s)
           = (BASE_SPAWN_INTERVAL + 15 / 10) / difficulty
       \<and> spawnTimerRef (spawnLogic rndS dateNow dt width height difficulty s)
           = BASE_SPAWN_INTERVAL / difficulty
       \<and> spawnTimerRef (spawnLogic rndS dateNow dt width height difficulty s)
           < spawnTimerRef (spawnLogic rndW dateNow dt width height difficulty s)
       \<and> timeSinceSpawnRef (spawnLogic rndW dateNow dt width height difficulty s) = 0
       \<and> timeSinceSpawnRef (spawnLogic rndS dateNow dt width height difficulty s) = 0"
proof -
  have "BASE_SPAWN_INTERVAL / difficulty < (BASE_SPAWN_INTERVAL + 15 / 10) / difficulty"
    using assms(2) by (intro divide_strict_right_mono) simp_all
  then show ?thesis
    using assms by (simp add: spawnLogic_def Let_def)
qed

theorem wave_interval_longer_witness:
  "timeSinceSpawnRef aboutToSpawn + 1 / 10 > spawnTimerRef aboutToSpawn
   \<and> (0::real) < 1
   \<and> tapeLow (rng aboutToSpawn) < 2 / 10
   \<and> \<not> tapeHalf (rng aboutToSpawn) < 2 / 10
   \<and> spawnTimerRef (spawnLogic tapeLow 0 (1 / 10) 800 600 1 aboutToSpawn) = 23 / 10
   \<and> spawnTimerRef (spawnLogic tapeHalf 0 (1 / 10) 800 600 1 aboutToSpawn) = 8 / 10
   \<and> timeSinceSpawnRef (spawnLogic tapeLow 0 (1 / 10) 800 600 1 aboutToSpawn) = 0
   \<and> timeSinceSpawnRef (spawnLogic tapeHalf 0 (1 / 10) 800 600 1 aboutToSpawn) = 0"
proof -
  have h1: "timeSinceSpawnRef aboutToSpawn + 1 / 10 > spawnTimerRef aboutToSpawn"
    by (simp add: aboutToSpawn_def mounted_def BASE_SPAWN_INTERVAL_def)
  have h2: "(0::real) < 1" by simp
  have h3: "tapeLow (rng aboutToSpawn) < 2 / 10" by (simp add: tapeLow_def)
  have h4: "\<not> tapeHalf (rng aboutToSpawn) < 2 / 10" by (simp add: tapeHalf_def)
  show ?thesis
    using h1 h2 h3 h4
      wave_interval_longer[where s = aboutToSpawn and rndW = tapeLow and rndS = tapeHalf,
        OF h1 h2 h3 h4, of 0 800 600]
    by (simp add: BASE_SPAWN_INTERVAL_def)
qed

section \<open>Launch solve\<close>

lemma launch_solve:
  assumes "0 < g" and "0 \<le> dy"
  shows "sy - (launchVy g dy)\<^sup>2 / (2 * g) = sy - dy"
proof -
  have "(launchVy g dy)\<^sup>2 = 2 * g * dy"
    using assms by (simp add: launchVy_def)
  then show ?thesis using assms by simp
qed

lemma peakHeight_bounds:
  assumes "0 \<le> height" and "0 \<le> r" and "r < 1"
  shows "0 \<le> peakHeight height r" and "peakHeight height r \<le> height"
proof -
  have a: "0 \<le> 15 / 100 + r * (2 / 10)" using assms by simp
  have b: "15 / 100 + r * (2 / 10) \<le> 1" using assms by simp
  show "0 \<le> peakHeight height r"
    unfolding peakHeight_def using assms(1) a by (rule mult_nonneg_nonneg)
  show "peakHeight height r \<le> height"
    unfolding peakHeight_def using mult_left_mono[OF b assms(1)] by simp
qed

lemma launchGravity_pos:
  assumes "1 \<le> d"
  shows "0 < launchGravity d"
proof -
  have "0 \<le> (d - 1) * (1 / 10)" using assms by simp
  then have "0 < 1 + (d - 1) * (1 / 10)" by linarith
  then show ?thesis
    unfolding launchGravity_def GRAVITY_def by (intro mult_pos_pos) simp_all
qed

lemma spawnFruit_fruits:
  "fruitsRef (spawnFruit rnd t w h fb d s) = fruitsRef s @ [last (fruitsRef (spawnFruit rnd t w h fb d s))]"
  by (simp add: spawnFruit_def Let_def split: prod.splits)

lemma spawnFruit_last:
  "f_y (last (fruitsRef (spawnFruit rnd t w h fb d s))) = startY h"
  "f_vy (last (fruitsRef (spawnFruit rnd t w h fb d s))) =
     launchVy (launchGravity d) (startY h - peakHeight h (rnd ((if fb then rng s else rng s + 1) + 2)))"
  by (simp_all add: spawnFruit_def Let_def split: prod.splits)

text \<open>
  C7.  For a canvas height \<open>height \<ge> 0\<close>, a difficulty \<open>d \<ge> 1\<close> and draws in \<open>[0, 1)\<close>, the
  projectile that \<open>spawnFruit\<close> pushes starts at \<open>startY\<close> with
  \<open>vy0 = - sqrt (2 * g * (startY - peakHeight))\<close>, where \<open>g\<close> is the difficulty-scaled gravity
  computed at spawn time; the apex \<open>startY - vy0\<^sup>2 / (2 * g)\<close> of the continuous arc equals
  \<open>peakHeight\<close> (in real arithmetic), and \<open>peakHeight\<close> lies between 0 and the canvas height.
\<close>

theorem launch_apex_equals_peakHeight:
  assumes "0 \<le> height" and "1 \<le> d" and "\<forall>n. 0 \<le> rnd n \<and> rnd n < 1"
  shows "let s' = spawnFruit rnd dateNow width height forceBomb d s;
             fruit = last (fruitsRef s');
             g = launchGravity d;
             peak = peakHeight height (rnd ((if forceBomb then rng s else rng s + 1) + 2))
         in fruitsRef s' = fruitsRef s @ [fruit]
          \<and> f_y fruit = startY height
          \<and> f_vy fruit = - sqrt (2 * g * (startY height - peak))
          \<and> f_y fruit - (f_vy fruit)\<^sup>2 / (2 * g) = peak
          \<and> 0 \<le> peak \<and> peak \<le> height"
proof -
  define k where "k = (if forceBomb then rng s else rng s + 1) + 2"
  have r: "0 \<le> rnd k" "rnd k < 1" using assms(3) by simp_all
  have p0: "0 \<le> peakHeight height (rnd k)" and p1: "peakHeight height (rnd k) \<le> height"
    using peakHeight_bounds[OF assms(1) r] by simp_all
  have dy: "0 \<le> startY height - peakHeight height (rnd k)"
    using p1 by (simp add: startY_def)
  have g: "0 < launchGravity d" using assms(2) by (rule launchGravity_pos)
  have apex: "startY height - (launchVy (launchGravity d) (startY height - peakHeight height (rnd k)))\<^sup>2
                / (2 * launchGravity d) = peakHeight height (rnd k)"
    using launch_solve[OF g dy, of "startY height"] by simp
  show ?thesis
    unfolding Let_def
    using spawnFruit_fruits[of rnd dateNow width height forceBomb d s] apex p0 p1
    by (simp add: spawnFruit_last k_def launchVy_def)
qed

theorem launch_apex_equals_peakHeight_witness:
  "(0::real) \<le> 600 \<and> (1::real) \<le> 1 \<and> (\<forall>n. 0 \<le> tapeHalf n \<and> tapeHalf n < 1) \<and>
   f_y (last (fruitsRef (spawnFruit tapeHalf 0 800 600 False 1 mounted))) = 700 \<and>
   f_y (last (fruitsRef (spawnFruit tapeHalf 0 800 600 False 1 mounted)))
     - (f_vy (last (fruitsRef (spawnFruit tapeHalf 0 800 600 False 1 mounted))))\<^sup>2 / (2 * 1500) = 150"
proof -
  have h1: "(0::real) \<le> 600" and h2: "(1::real) \<le> 1" by simp_all
  have h3: "\<forall>n. 0 \<le> tapeHalf n \<and> tapeHalf n < 1" by (simp add: tapeHalf_def)
  show ?thesis
    using h1 h2 h3
      launch_apex_equals_peakHeight[where rnd = tapeHalf and height = 600 and d = 1,
        OF h1 h2 h3, of 0 800 False mounted]
    by (simp add: Let_def startY_def peakHeight_def tapeHalf_def launchGravity_def GRAVITY_def)
qed

section \<open>Commentary service\<close>






section \<open>The loop body: one projectile\<close>

lemma explosionLoop_eq:
  "explosionLoop n rnd x y color s =
     s\<lparr> particlesRef := particlesRef s @ explosionParticles n (mathObj s) rnd (rng s) x y color,
        rng := rng s + 4 * n \<rparr>"
  by (induction n arbitrary: s) (simp_all add: pushParticle_def Let_def)

lemma createExplosion_eq:
  "createExplosion rnd x y color s =
     s\<lparr> particlesRef := particlesRef s @ explosionParticles 20 (mathObj s) rnd (rng s) x y color,
        rng := rng s + 80 \<rparr>"
  by (simp add: createExplosion_def explosionLoop_eq)


lemma bombBranch_fields [simp]:
  "livesRef (bombBranch rnd fruit i s) = livesRef s - 1"
  "bombsHitRef (bombBranch rnd fruit i s) = bombsHitRef s + 1"
  "currentComboRef (bombBranch rnd fruit i s) = 0"
  "fruitsRef (bombBranch rnd fruit i s) = splice1 i (fruitsRef s)"
  "debrisRef (bombBranch rnd fruit i s) = debrisRef s"
  "scoreRef (bombBranch rnd fruit i s) = scoreRef s"
  "slicedCountRef (bombBranch rnd fruit i s) = slicedCountRef s"
  "lastSliceTimeRef (bombBranch rnd fruit i s) = lastSliceTimeRef s"
  "trailRef (bombBranch rnd fruit i s) = trailRef s"
  "reports (bombBranch rnd fruit i s) =
     (if livesRef s - 1 \<le> 0
      then reports s @ [(scoreRef s, slicedCountRef s, bombsHitRef s + 1)] else reports s)"
  "gameState (bombBranch rnd fruit i s) = (if livesRef s - 1 \<le> 0 then GAME_OVER else gameState s)"
  "mathObj (bombBranch rnd fruit i s) = mathObj s"
  by (simp_all add: bombBranch_def createExplosion_eq Let_def)

lemma sliceBranch_fields [simp]:
  "livesRef (sliceBranch rnd now cutAngle fruit i s) = livesRef s"
  "bombsHitRef (sliceBranch rnd now cutAngle fruit i s) = bombsHitRef s"
  "currentComboRef (sliceBranch rnd now cutAngle fruit i s) = currentComboRef s + 1"
  "fruitsRef (sliceBranch rnd now cutAngle fruit i s)
     = splice1 i ((fruitsRef s)[i := fruit\<lparr> f_sliced := True \<rparr>])"
  "debrisRef (sliceBranch rnd now cutAngle fruit i s)
     = debrisRef s @
         [debrisLeft (mathObj s) (rnd (rng s + 80)) (fruit\<lparr> f_sliced := True \<rparr>) cutAngle,
          debrisRight (mathObj s) (rnd (rng s + 81)) (fruit\<lparr> f_sliced := True \<rparr>) cutAngle]"
  "scoreRef (sliceBranch rnd now cutAngle fruit i s)
     = scoreRef s + 10 + (if currentComboRef s + 1 > 1 then (currentComboRef s + 1) * 5 else 0)"
  "slicedCountRef (sliceBranch rnd now cutAngle fruit i s) = slicedCountRef s + 1"
  "lastSliceTimeRef (sliceBranch rnd now cutAngle fruit i s) = jsDiv now 1000"
  "trailRef (sliceBranch rnd now cutAngle fruit i s) = trailRef s"
  "reports (sliceBranch rnd now cutAngle fruit i s) = reports s"
  "gameState (sliceBranch rnd now cutAngle fruit i s) = gameState s"
  "mathObj (sliceBranch rnd now cutAngle fruit i s) = mathObj s"
  by (simp_all add: sliceBranch_def createExplosion_eq createDebris_def createFloatingText_def
        Let_def add.commute split: prod.splits)

lemma length_splice1 [simp]: "i < length xs \<Longrightarrow> length (splice1 i xs) = length xs - 1"
  by (simp add: splice1_def)

lemma splice1_update [simp]: "splice1 i (xs[i := v]) = splice1 i xs"
  by (simp add: splice1_def)

lemma debris_pair:
  "d_side (debrisLeft M a fruit cutAngle) = left"
  "d_side (debrisRight M b fruit cutAngle) = right"
  "d_vx (debrisLeft M a fruit cutAngle) = f_vx fruit + m_cos M (cutAngle - m_PI M / 2) * pushForce"
  "d_vy (debrisLeft M a fruit cutAngle) = f_vy fruit + m_sin M (cutAngle - m_PI M / 2) * pushForce"
  "d_vx (debrisRight M b fruit cutAngle)
     = f_vx fruit + m_cos M (cutAngle - m_PI M / 2 + m_PI M) * pushForce"
  "d_vy (debrisRight M b fruit cutAngle)
     = f_vy fruit + m_sin M (cutAngle - m_PI M / 2 + m_PI M) * pushForce"
  by (simp_all add: debrisLeft_def debrisRight_def Let_def)

text \<open>
  The two impulses are opposite when the \<open>Math\<close> object negates \<open>cos\<close> and \<open>sin\<close> under a shift
  by its \<open>PI\<close>; the component does not establish that itself.
\<close>

lemma debris_pair_opposite_if:
  assumes "m_cos M (cutAngle - m_PI M / 2 + m_PI M) = - m_cos M (cutAngle - m_PI M / 2)"
      and "m_sin M (cutAngle - m_PI M / 2 + m_PI M) = - m_sin M (cutAngle - m_PI M / 2)"
  shows "d_vx (debrisLeft M a fruit cutAngle) - f_vx fruit
           = - (d_vx (debrisRight M b fruit cutAngle) - f_vx fruit)"
    and "d_vy (debrisLeft M a fruit cutAngle) - f_vy fruit
           = - (d_vy (debrisRight M b fruit cutAngle) - f_vy fruit)"
  using assms by (simp_all add: debris_pair)

lemma debris_velocity_sliced [simp]:
  "d_vx (debrisLeft M a (fruit\<lparr> f_sliced := True \<rparr>) c) = d_vx (debrisLeft M a fruit c)"
  "d_vy (debrisLeft M a (fruit\<lparr> f_sliced := True \<rparr>) c) = d_vy (debrisLeft M a fruit c)"
  "d_vx (debrisRight M a (fruit\<lparr> f_sliced := True \<rparr>) c) = d_vx (debrisRight M a fruit c)"
  "d_vy (debrisRight M a (fruit\<lparr> f_sliced := True \<rparr>) c) = d_vy (debrisRight M a fruit c)"
  by (simp_all add: debrisLeft_def debrisRight_def Let_def)

lemma ageing_fields [simp]:
  "livesRef (updateParticles dt s) = livesRef s"
  "livesRef (updateTexts dt s) = livesRef s"
  "livesRef (updateDebris dt h s) = livesRef s"
  "livesRef (flashEffect dt s) = livesRef s"
  "reports (updateParticles dt s) = reports s"
  "reports (updateTexts dt s) = reports s"
  "reports (updateDebris dt h s) = reports s"
  "reports (flashEffect dt s) = reports s"
  "gameState (updateParticles dt s) = gameState s"
  "gameState (updateTexts dt s) = gameState s"
  "gameState (updateDebris dt h s) = gameState s"
  "gameState (flashEffect dt s) = gameState s"
  by (simp_all add: updateParticles_def updateTexts_def updateDebris_def flashEffect_def)

text \<open>
  C8.  When, after the physics step, a projectile satisfies \<open>y > height +
  FRUIT_LIFETIME_Y_OFFSET\<close> and \<open>vy > 0\<close>, the loop body removes it from the live list and
  changes nothing else: score, lives, slicedCount, bombsHit, the game-over reports and the
  game state are as before.
\<close>

theorem offscreen_removed_without_penalty:
  assumes "i < length (fruitsRef s)"
      and "fruit = integrate dt difficulty (fruitsRef s ! i)"
      and "f_y fruit > height + FRUIT_LIFETIME_Y_OFFSET"
      and "f_vy fruit > 0"
  shows "\<exists>s'. loopBody rnd now dt height difficulty cutAngle i s = Inr s'
           \<and> s' = s\<lparr> fruitsRef := take i (fruitsRef s) @ drop (Suc i) (fruitsRef s) \<rparr>
           \<and> length (fruitsRef s') = length (fruitsRef s) - 1
           \<and> scoreRef s' = scoreRef s \<and> livesRef s' = livesRef s
           \<and> slicedCountRef s' = slicedCountRef s \<and> bombsHitRef s' = bombsHitRef s
           \<and> reports s' = reports s \<and> gameState s' = gameState s"
  using assms by (simp add: loopBody_def fruitStep_def Let_def splice1_def)

theorem offscreen_removed_without_penalty_witness:
  "0 < length (fruitsRef fallenScene)
   \<and> f_y (integrate (16 / 1000) 1 ((grapesAt 400 800)\<lparr> f_vy := 100 \<rparr>)) > 600 + FRUIT_LIFETIME_Y_OFFSET
   \<and> f_vy (integrate (16 / 1000) 1 ((grapesAt 400 800)\<lparr> f_vy := 100 \<rparr>)) > 0
   \<and> (\<exists>s'. loopBody tapeHalf 1016 (16 / 1000) 600 1 0 0 fallenScene = Inr s'
          \<and> fruitsRef s' = [] \<and> scoreRef s' = 0 \<and> livesRef s' = 3
          \<and> slicedCountRef s' = 0 \<and> bombsHitRef s' = 0 \<and> reports s' = [])"
proof -
  let ?f = "integrate (16 / 1000) 1 ((grapesAt 400 800)\<lparr> f_vy := 100 \<rparr>)"
  have h1: "0 < length (fruitsRef fallenScene)" by (simp add: fallenScene_def)
  have h2: "?f = integrate (16 / 1000) 1 (fruitsRef fallenScene ! 0)" by (simp add: fallenScene_def)
  have h3: "f_y ?f > 600 + FRUIT_LIFETIME_Y_OFFSET"
    by (simp add: integrate_def grapesAt_def FRUIT_LIFETIME_Y_OFFSET_def)
  have h4: "f_vy ?f > 0" by (simp add: integrate_def grapesAt_def GRAVITY_def)
  show ?thesis
    using h1 h3 h4
      offscreen_removed_without_penalty[where s = fallenScene and i = 0 and fruit = ?f
        and height = 600, OF h1 h2 h3 h4, of tapeHalf 1016 0]
    by (auto simp: fallenScene_def playing_def mounted_def MAX_LIVES_def)
qed




section \<open>The projectile loop as a fold\<close>

lemma bombBranch_eq:
  "bombBranch rnd fruit i s = (bombEffect rnd fruit s)\<lparr> fruitsRef := splice1 i (fruitsRef s) \<rparr>"
  by (rule State.equality) (simp_all add: bombBranch_def bombEffect_def createExplosion_eq Let_def)

lemma sliceBranch_eq:
  "sliceBranch rnd now cutAngle fruit i s =
     (sliceEffect rnd now cutAngle fruit s)\<lparr> fruitsRef := splice1 i (fruitsRef s) \<rparr>"
  by (rule State.equality)
     (simp_all add: sliceBranch_def sliceEffect_def createExplosion_eq createDebris_def
        createFloatingText_def Let_def split: prod.splits)

lemma bombEffect_fruits_update:
  "bombEffect rnd fruit (s\<lparr> fruitsRef := fs \<rparr>) = (bombEffect rnd fruit s)\<lparr> fruitsRef := fs \<rparr>"
  by (rule State.equality) (simp_all add: bombBranch_def bombEffect_def createExplosion_eq Let_def)

lemma sliceEffect_fruits_update:
  "sliceEffect rnd now cutAngle fruit (s\<lparr> fruitsRef := fs \<rparr>)
     = (sliceEffect rnd now cutAngle fruit s)\<lparr> fruitsRef := fs \<rparr>"
  by (rule State.equality)
     (simp_all add: sliceBranch_def sliceEffect_def createExplosion_eq createDebris_def
        createFloatingText_def Let_def split: prod.splits)

lemma resolve_fruits_update:
  "resolve rnd now height cutAngle fruit (s\<lparr> fruitsRef := fs \<rparr>)
     = (resolve rnd now height cutAngle fruit s)\<lparr> fruitsRef := fs \<rparr>"
  by (simp add: resolve_def bombEffect_fruits_update sliceEffect_fruits_update)

lemma effect_keeps [simp]:
  "fruitsRef (bombEffect rnd fruit s) = fruitsRef s"
  "fruitsRef (sliceEffect rnd now cutAngle fruit s) = fruitsRef s"
  "trailRef (bombEffect rnd fruit s) = trailRef s"
  "trailRef (sliceEffect rnd now cutAngle fruit s) = trailRef s"
  by (simp_all add: bombEffect_def sliceEffect_def)

lemma resolve_keeps [simp]:
  "fruitsRef (resolve rnd now height cutAngle fruit s) = fruitsRef s"
  "trailRef (resolve rnd now height cutAngle fruit s) = trailRef s"
  by (simp_all add: resolve_def)

lemma fruitStep_eq:
  assumes "fruit = integrate dt difficulty (fruitsRef s ! i)"
  shows "fruitStep rnd now dt height difficulty cutAngle i s =
           (resolve rnd now height cutAngle fruit s)
             \<lparr> fruitsRef := (if survives (trailRef s) height fruit
                             then (fruitsRef s)[i := fruit]
                             else splice1 i (fruitsRef s)) \<rparr>"
proof -
  let ?s1 = "s\<lparr> fruitsRef := (fruitsRef s)[i := fruit] \<rparr>"
  have unfold: "fruitStep rnd now dt height difficulty cutAngle i s =
      (if fallen height fruit then ?s1\<lparr> fruitsRef := splice1 i (fruitsRef ?s1) \<rparr>
       else if struck (trailRef s) height fruit
            then (if f_type fruit = bomb then bombBranch rnd fruit i ?s1
                  else sliceBranch rnd now cutAngle fruit i ?s1)
            else ?s1)"
    using assms by (auto simp add: fruitStep_def Let_def fallen_def struck_def)
  show ?thesis
  proof (cases "fallen height fruit")
    case True
    then show ?thesis
      unfolding unfold by (simp add: resolve_def struck_def survives_def)
  next
    case nf: False
    show ?thesis
    proof (cases "struck (trailRef s) height fruit")
      case False
      with nf show ?thesis
        unfolding unfold by (simp add: resolve_def survives_def)
    next
      case True
      with nf show ?thesis
        unfolding unfold
        by (simp add: resolve_def survives_def bombBranch_eq sliceBranch_eq
              bombEffect_fruits_update sliceEffect_fruits_update)
    qed
  qed
qed

lemma foldr_resolve_fruits_update:
  "foldr (\<lambda>fruit. resolve rnd now height cutAngle (g fruit)) xs (s\<lparr> fruitsRef := fs \<rparr>)
     = (foldr (\<lambda>fruit. resolve rnd now height cutAngle (g fruit)) xs s)\<lparr> fruitsRef := fs \<rparr>"
  by (induction xs) (simp_all add: resolve_fruits_update)

lemma fruitLoop_take:
  assumes "n \<le> length (fruitsRef s)"
  shows "fruitLoop rnd now dt height difficulty cutAngle n s =
           Inr ((foldr (\<lambda>fruit. resolve rnd now height cutAngle (integrate dt difficulty fruit))
                   (take n (fruitsRef s)) s)
                  \<lparr> fruitsRef := filter (survives (trailRef s) height)
                                        (map (integrate dt difficulty) (take n (fruitsRef s)))
                                  @ drop n (fruitsRef s) \<rparr>)"
  using assms
proof (induction n arbitrary: s)
  case 0
  then show ?case by simp
next
  case (Suc n)
  let ?fs = "fruitsRef s"
  let ?f = "integrate dt difficulty (?fs ! n)"
  let ?R = "\<lambda>fruit. resolve rnd now height cutAngle (integrate dt difficulty fruit)"
  let ?s1 = "fruitStep rnd now dt height difficulty cutAngle n s"
  have n: "n < length ?fs" using Suc.prems by simp
  have s1: "?s1 = (resolve rnd now height cutAngle ?f s)
             \<lparr> fruitsRef := (if survives (trailRef s) height ?f
                             then ?fs[n := ?f] else splice1 n ?fs) \<rparr>"
    by (rule fruitStep_eq) simp
  have fs1: "fruitsRef ?s1 = (if survives (trailRef s) height ?f then ?fs[n := ?f] else splice1 n ?fs)"
    unfolding s1 by simp
  have tr1: "trailRef ?s1 = trailRef s" unfolding s1 by simp
  have len: "n \<le> length (fruitsRef ?s1)" using n unfolding fs1 by auto
  have tk: "take n (fruitsRef ?s1) = take n ?fs"
    unfolding fs1 using n by (simp add: splice1_def)
  have dr: "drop n (fruitsRef ?s1) = (if survives (trailRef s) height ?f then [?f] else []) @ drop (Suc n) ?fs"
    unfolding fs1 using n by (auto simp add: splice1_def upd_conv_take_nth_drop min_def)
  have step: "fruitLoop rnd now dt height difficulty cutAngle (Suc n) s
                = fruitLoop rnd now dt height difficulty cutAngle n ?s1"
    using n by (simp add: loopBody_def)
  have fold: "foldr ?R (take n ?fs) ?s1
        = (foldr ?R (take (Suc n) ?fs) s)
            \<lparr> fruitsRef := (if survives (trailRef s) height ?f then ?fs[n := ?f] else splice1 n ?fs) \<rparr>"
    unfolding s1 using n by (simp add: foldr_resolve_fruits_update take_Suc_conv_app_nth)
  show ?case
    unfolding step Suc.IH[OF len] tk dr tr1 fold
    using n by (simp add: take_Suc_conv_app_nth)
qed

lemma fruitLoop_newest_first:
  "fruitLoop rnd now dt height difficulty cutAngle (length (fruitsRef s)) s
     = Inr (outcomesNewestFirst rnd now dt height difficulty cutAngle s)"
  by (simp add: fruitLoop_take outcomesNewestFirst_def)

lemma bombEffect_fields [simp]:
  "livesRef (bombEffect rnd fruit s) = livesRef s - 1"
  "bombsHitRef (bombEffect rnd fruit s) = bombsHitRef s + 1"
  "currentComboRef (bombEffect rnd fruit s) = 0"
  "scoreRef (bombEffect rnd fruit s) = scoreRef s"
  "slicedCountRef (bombEffect rnd fruit s) = slicedCountRef s"
  "lastSliceTimeRef (bombEffect rnd fruit s) = lastSliceTimeRef s"
  "debrisRef (bombEffect rnd fruit s) = debrisRef s"
  by (simp_all add: bombEffect_def)

lemma sliceEffect_fields [simp]:
  "livesRef (sliceEffect rnd now cutAngle fruit s) = livesRef s"
  "bombsHitRef (sliceEffect rnd now cutAngle fruit s) = bombsHitRef s"
  "currentComboRef (sliceEffect rnd now cutAngle fruit s) = currentComboRef s + 1"
  "scoreRef (sliceEffect rnd now cutAngle fruit s)
     = scoreRef s + 10 + (if currentComboRef s + 1 > 1 then (currentComboRef s + 1) * 5 else 0)"
  "slicedCountRef (sliceEffect rnd now cutAngle fruit s) = slicedCountRef s + 1"
  "lastSliceTimeRef (sliceEffect rnd now cutAngle fruit s) = jsDiv now 1000"
  "length (debrisRef (sliceEffect rnd now cutAngle fruit s)) = length (debrisRef s) + 2"
  by (simp_all add: sliceEffect_def)

lemma foldr_resolve_trail [simp]:
  "trailRef (foldr (\<lambda>fruit. resolve rnd now height cutAngle (g fruit)) xs s) = trailRef s"
  by (induction xs) simp_all

lemma resolve_cases:
  "\<not> struck (trailRef s) height fruit \<Longrightarrow> resolve rnd now height cutAngle fruit s = s"
  "struck (trailRef s) height fruit \<Longrightarrow> f_type fruit = bomb \<Longrightarrow>
     resolve rnd now height cutAngle fruit s = bombEffect rnd fruit s"
  "struck (trailRef s) height fruit \<Longrightarrow> f_type fruit \<noteq> bomb \<Longrightarrow>
     resolve rnd now height cutAngle fruit s = sliceEffect rnd now cutAngle fruit s"
  by (simp_all add: resolve_def)

lemma foldr_resolve_counts:
  "bombsHitRef s \<le> bombsHitRef (foldr (\<lambda>fruit. resolve rnd now height cutAngle (g fruit)) xs s)
   \<and> slicedCountRef s \<le> slicedCountRef (foldr (\<lambda>fruit. resolve rnd now height cutAngle (g fruit)) xs s)
   \<and> (slicedCountRef (foldr (\<lambda>fruit. resolve rnd now height cutAngle (g fruit)) xs s) - slicedCountRef s)
       + (bombsHitRef (foldr (\<lambda>fruit. resolve rnd now height cutAngle (g fruit)) xs s) - bombsHitRef s)
       + int (length (filter (survives (trailRef s) height) (map g xs)))
     \<le> int (length xs)"
proof (induction xs)
  case Nil
  then show ?case by simp
next
  case (Cons x xs)
  let ?F = "foldr (\<lambda>fruit. resolve rnd now height cutAngle (g fruit)) xs s"
  have tr: "trailRef ?F = trailRef s" by simp
  consider (none) "\<not> struck (trailRef s) height (g x)"
    | (bomb) "struck (trailRef s) height (g x)" "f_type (g x) = bomb"
    | (slice) "struck (trailRef s) height (g x)" "f_type (g x) \<noteq> bomb"
    by blast
  then show ?case
  proof cases
    case none
    then have "resolve rnd now height cutAngle (g x) ?F = ?F"
      using tr by (simp add: resolve_cases)
    with Cons show ?thesis by simp
  next
    case bomb
    then have "resolve rnd now height cutAngle (g x) ?F = bombEffect rnd (g x) ?F"
      using tr by (simp add: resolve_cases)
    with Cons bomb show ?thesis by (simp add: survives_def)
  next
    case slice
    then have "resolve rnd now height cutAngle (g x) ?F = sliceEffect rnd now cutAngle (g x) ?F"
      using tr by (simp add: resolve_cases)
    with Cons slice show ?thesis by (simp add: survives_def)
  qed
qed

lemma foldr_resolve_combo:
  assumes "bombsHitRef (foldr (\<lambda>fruit. resolve rnd now height cutAngle (g fruit)) xs s) = bombsHitRef s"
  shows "currentComboRef (foldr (\<lambda>fruit. resolve rnd now height cutAngle (g fruit)) xs s)
           = currentComboRef s
             + (slicedCountRef (foldr (\<lambda>fruit. resolve rnd now height cutAngle (g fruit)) xs s)
                - slicedCountRef s)"
  using assms
proof (induction xs)
  case Nil
  then show ?case by simp
next
  case (Cons x xs)
  let ?F = "foldr (\<lambda>fruit. resolve rnd now height cutAngle (g fruit)) xs s"
  have tr: "trailRef ?F = trailRef s" by simp
  have mono: "bombsHitRef s \<le> bombsHitRef ?F"
    using foldr_resolve_counts[of s rnd now height cutAngle g xs] by simp
  consider (none) "\<not> struck (trailRef s) height (g x)"
    | (bomb) "struck (trailRef s) height (g x)" "f_type (g x) = bomb"
    | (slice) "struck (trailRef s) height (g x)" "f_type (g x) \<noteq> bomb"
    by blast
  then show ?case
  proof cases
    case none
    then have "resolve rnd now height cutAngle (g x) ?F = ?F"
      using tr by (simp add: resolve_cases)
    with Cons show ?thesis by simp
  next
    case bomb
    then have "resolve rnd now height cutAngle (g x) ?F = bombEffect rnd (g x) ?F"
      using tr by (simp add: resolve_cases)
    with Cons.prems mono show ?thesis by simp
  next
    case slice
    then have "resolve rnd now height cutAngle (g x) ?F = sliceEffect rnd now cutAngle (g x) ?F"
      using tr by (simp add: resolve_cases)
    with Cons show ?thesis by simp
  qed
qed


text \<open>
  C4, amended.  The projectile loop never fails, and its result is the fold that resolves the
  projectiles in reverse insertion order, the newest-spawned first.  Each projectile is
  resolved once: the slices and bomb hits of the tick plus the projectiles still live after
  it are at most the projectiles live before it.
\<close>

theorem outcomes_applied_newest_first:
  "\<exists>s'. fruitLoop rnd now dt height difficulty cutAngle (length (fruitsRef s)) s = Inr s'
        \<and> s' = outcomesNewestFirst rnd now dt height difficulty cutAngle s
        \<and> slicedCountRef s \<le> slicedCountRef s'
        \<and> bombsHitRef s \<le> bombsHitRef s'
        \<and> (slicedCountRef s' - slicedCountRef s) + (bombsHitRef s' - bombsHitRef s)
            + int (length (fruitsRef s')) \<le> int (length (fruitsRef s))"
  using foldr_resolve_counts[of s rnd now height cutAngle "integrate dt difficulty" "fruitsRef s"]
  by (simp add: fruitLoop_newest_first) (simp add: outcomesNewestFirst_def)

lemma mixedScene_code:
  "\<exists>s'. fruitLoop tapeHalf 1016 (16 / 1000) 600 1 0 (length (fruitsRef mixedScene)) mixedScene = Inr s'
        \<and> currentComboRef s' = 1"
  by (simp add: loopBody_def fruitStep_def Let_def mixedScene_def playing_def
        mounted_def bombAt_def grapesAt_def trailAt_def integrate_def recentPoints_def splice1_def
        FRUIT_LIFETIME_Y_OFFSET_def GRAVITY_def MAX_LIVES_def)

lemma mixedScene_insertion_order:
  "currentComboRef (outcomesInsertionOrder tapeHalf 1016 (16 / 1000) 600 1 0 mixedScene) = 0"
  by (simp add: outcomesInsertionOrder_def resolve_def struck_def fallen_def mixedScene_def
        playing_def mounted_def bombAt_def grapesAt_def trailAt_def integrate_def recentPoints_def
        FRUIT_LIFETIME_Y_OFFSET_def GRAVITY_def MAX_LIVES_def)

text \<open>
  C4, as stated: the outcomes are applied in insertion order.  With a fruit spawned before a
  bomb, both under the trail, the loop resolves the bomb first and the fruit second, so the
  combo ends at 1; in insertion order the slice would come first and the bomb would leave
  the combo at 0.
\<close>

theorem insertion_order_counterexample:
  "fruitLoop tapeHalf 1016 (16 / 1000) 600 1 0 (length (fruitsRef mixedScene)) mixedScene
     \<noteq> Inr (outcomesInsertionOrder tapeHalf 1016 (16 / 1000) 600 1 0 mixedScene)"
  using mixedScene_code mixedScene_insertion_order by auto

section \<open>Slices, bomb hits, fragments and lives\<close>






section \<open>Combo\<close>

lemma spawn_counters [simp]:
  "currentComboRef (spawnFruit rnd t w h fb d s) = currentComboRef s"
  "slicedCountRef (spawnFruit rnd t w h fb d s) = slicedCountRef s"
  "bombsHitRef (spawnFruit rnd t w h fb d s) = bombsHitRef s"
  "lastSliceTimeRef (spawnFruit rnd t w h fb d s) = lastSliceTimeRef s"
  "currentComboRef (spawnWave rnd w h d s) = currentComboRef s"
  "slicedCountRef (spawnWave rnd w h d s) = slicedCountRef s"
  "bombsHitRef (spawnWave rnd w h d s) = bombsHitRef s"
  "lastSliceTimeRef (spawnWave rnd w h d s) = lastSliceTimeRef s"
  by (simp_all add: spawnFruit_def spawnWave_def Let_def split: prod.splits)

lemma spawnLogic_counters [simp]:
  "currentComboRef (spawnLogic rnd t dt w h d s) = currentComboRef s"
  "slicedCountRef (spawnLogic rnd t dt w h d s) = slicedCountRef s"
  "bombsHitRef (spawnLogic rnd t dt w h d s) = bombsHitRef s"
  "lastSliceTimeRef (spawnLogic rnd t dt w h d s) = lastSliceTimeRef s"
  by (simp_all add: spawnLogic_def Let_def)

lemma fireTimeout_counters [simp]:
  "currentComboRef (fireTimeout rnd t s) = currentComboRef s"
  "slicedCountRef (fireTimeout rnd t s) = slicedCountRef s"
  "bombsHitRef (fireTimeout rnd t s) = bombsHitRef s"
  by (simp_all add: fireTimeout_def split: list.splits)

lemma comboTimeout_counters [simp]:
  "currentComboRef (comboTimeout now s)
     = (if jsSub (jsDiv now 1000) (lastSliceTimeRef s) > COMBO_WINDOW then 0 else currentComboRef s)"
  "slicedCountRef (comboTimeout now s) = slicedCountRef s"
  "bombsHitRef (comboTimeout now s) = bombsHitRef s"
  by (simp_all add: comboTimeout_def)

lemma ageing_counters [simp]:
  "currentComboRef (updateParticles dt s) = currentComboRef s"
  "currentComboRef (updateTexts dt s) = currentComboRef s"
  "currentComboRef (updateDebris dt h s) = currentComboRef s"
  "currentComboRef (flashEffect dt s) = currentComboRef s"
  "slicedCountRef (updateParticles dt s) = slicedCountRef s"
  "slicedCountRef (updateTexts dt s) = slicedCountRef s"
  "slicedCountRef (updateDebris dt h s) = slicedCountRef s"
  "slicedCountRef (flashEffect dt s) = slicedCountRef s"
  "bombsHitRef (updateParticles dt s) = bombsHitRef s"
  "bombsHitRef (updateTexts dt s) = bombsHitRef s"
  "bombsHitRef (updateDebris dt h s) = bombsHitRef s"
  "bombsHitRef (flashEffect dt s) = bombsHitRef s"
  by (simp_all add: updateParticles_def updateTexts_def updateDebris_def flashEffect_def)

lemma screenShake_counters [simp]:
  "currentComboRef (screenShake dt s) = currentComboRef s"
  "slicedCountRef (screenShake dt s) = slicedCountRef s"
  "bombsHitRef (screenShake dt s) = bombsHitRef s"
  "lastSliceTimeRef (screenShake dt s) = lastSliceTimeRef s"
  "gameState (screenShake dt s) = gameState s"
  "waitingForHand (screenShake dt s) = waitingForHand s"
  by (simp_all add: screenShake_def)

lemma gameLogic_eq:
  "gameLogic rnd now dateNow dt width height s =
     Inr (updateDebris dt height (updateTexts dt (updateParticles dt
            (outcomesNewestFirst rnd now dt height (difficultyOf (scoreRef s))
               (cutAngleOf (trailRef (comboTimeout now
                  (spawnLogic rnd dateNow dt width height (difficultyOf (scoreRef s)) s))))
               (comboTimeout now
                  (spawnLogic rnd dateNow dt width height (difficultyOf (scoreRef s)) s))))))"
  by (simp add: gameLogic_def Let_def fruitLoop_newest_first)

lemma outcomes_counters:
  "bombsHitRef s \<le> bombsHitRef (outcomesNewestFirst rnd now dt height difficulty cutAngle s)"
  "bombsHitRef (outcomesNewestFirst rnd now dt height difficulty cutAngle s) = bombsHitRef s \<Longrightarrow>
   currentComboRef (outcomesNewestFirst rnd now dt height difficulty cutAngle s)
     = currentComboRef s
       + (slicedCountRef (outcomesNewestFirst rnd now dt height difficulty cutAngle s) - slicedCountRef s)"
  using foldr_resolve_counts[of s rnd now height cutAngle "integrate dt difficulty" "fruitsRef s"]
    foldr_resolve_combo[of rnd now height cutAngle "integrate dt difficulty" "fruitsRef s" s]
  by (simp_all add: outcomesNewestFirst_def)

lemma gameLogic_combo:
  "\<exists>s'. gameLogic rnd now dateNow dt width height s = Inr s'
     \<and> bombsHitRef s \<le> bombsHitRef s'
     \<and> (bombsHitRef s' = bombsHitRef s \<longrightarrow>
          currentComboRef s'
            = (if jsSub (jsDiv now 1000) (lastSliceTimeRef s) > COMBO_WINDOW then 0 else currentComboRef s)
              + (slicedCountRef s' - slicedCountRef s))"
proof -
  let ?s2 = "comboTimeout now (spawnLogic rnd dateNow dt width height (difficultyOf (scoreRef s)) s)"
  let ?o = "outcomesNewestFirst rnd now dt height (difficultyOf (scoreRef s))
              (cutAngleOf (trailRef ?s2)) ?s2"
  have a: "bombsHitRef ?s2 \<le> bombsHitRef ?o" by (rule outcomes_counters(1))
  have b: "bombsHitRef ?o = bombsHitRef ?s2 \<Longrightarrow>
           currentComboRef ?o = currentComboRef ?s2 + (slicedCountRef ?o - slicedCountRef ?s2)"
    by (rule outcomes_counters(2))
  show ?thesis
    unfolding gameLogic_eq using a b by simp
qed

lemma loop_combo:
  "\<exists>s'. loop rnd inp s = Inr s'
     \<and> bombsHitRef s \<le> bombsHitRef s'
     \<and> (bombsHitRef s' = bombsHitRef s \<longrightarrow>
         jsSub (jsDiv (in_now inp) 1000) (lastSliceTimeRef s) \<le> COMBO_WINDOW \<longrightarrow>
          currentComboRef s' = currentComboRef s + (slicedCountRef s' - slicedCountRef s))"
proof (cases "in_canvas inp")
  case None
  then show ?thesis by (simp add: loop_def Let_def)
next
  case (Some wh)
  obtain width height where wh: "wh = (width, height)" by (cases wh)
  define dt where "dt = min ((in_now inp - lastTimeRef s) / 1000) (1 / 10)"
  define handPoints where "handPoints = handPointsOf inp width height"
  define s2 where "s2 = screenShake dt (s\<lparr> lastTimeRef := in_now inp,
      cursorRef := (case handPoints of [] \<Rightarrow> None | p # _ \<Rightarrow> Some (p_x p, p_y p)) \<rparr>)"
  define s3 where "s3 = (case handPoints of
                          [] \<Rightarrow> s2
                        | p # _ \<Rightarrow>
                            if gameState s2 = PLAYING
                            then s2\<lparr> trailRef := trailRef s2 @
                                       [\<lparr> p_x = p_x p, p_y = p_y p, p_life = Some TRAIL_LENGTH \<rparr>] \<rparr>
                            else s2)"
  define s4 where "s4 = s3\<lparr> trailRef := ageTrail dt (trailRef s3) \<rparr>"
  define s5 where "s5 = (if waitingForHand s4 then s4\<lparr> waitingForHand := False \<rparr> else s4)"
  have shape: "loop rnd inp s =
      (if gameState s4 = PLAYING then
         (if waitingForHand s4 \<and> handPoints = [] then Inr s4
          else (case gameLogic rnd (in_now inp) (in_dateNow inp) dt width height s5 of
                  Inl e \<Rightarrow> Inl e
                | Inr s6 \<Rightarrow> Inr (flashEffect dt s6)))
       else Inr (flashEffect dt s4))"
    unfolding loop_def Let_def Some wh s5_def s4_def s3_def s2_def handPoints_def dt_def
    by simp
  have c3: "currentComboRef s3 = currentComboRef s" "slicedCountRef s3 = slicedCountRef s"
    "bombsHitRef s3 = bombsHitRef s" "lastSliceTimeRef s3 = lastSliceTimeRef s"
    unfolding s3_def s2_def by (simp_all split: list.splits)
  have c5: "currentComboRef s5 = currentComboRef s" "slicedCountRef s5 = slicedCountRef s"
    "bombsHitRef s5 = bombsHitRef s" "lastSliceTimeRef s5 = lastSliceTimeRef s"
    unfolding s5_def s4_def using c3 by simp_all
  have c4: "currentComboRef s4 = currentComboRef s" "slicedCountRef s4 = slicedCountRef s"
    "bombsHitRef s4 = bombsHitRef s"
    unfolding s4_def using c3 by simp_all
  obtain s6 where g: "gameLogic rnd (in_now inp) (in_dateNow inp) dt width height s5 = Inr s6"
    and g1: "bombsHitRef s5 \<le> bombsHitRef s6"
    and g2: "bombsHitRef s6 = bombsHitRef s5 \<longrightarrow>
          currentComboRef s6
            = (if jsSub (jsDiv (in_now inp) 1000) (lastSliceTimeRef s5) > COMBO_WINDOW then 0 else currentComboRef s5)
              + (slicedCountRef s6 - slicedCountRef s5)"
    using gameLogic_combo[of rnd "in_now inp" "in_dateNow inp" dt width height s5] by blast
  show ?thesis
    unfolding shape g using g1 g2 c4 c5 by auto
qed

lemma chain_counts_slices:
  "chainAlive rnd es s \<Longrightarrow>
     \<exists>s'. run rnd es s = Inr s'
        \<and> currentComboRef s' = currentComboRef s + (slicedCountRef s' - slicedCountRef s)"
proof (induction es arbitrary: s)
  case Nil
  then show ?case by simp
next
  case (Cons e es)
  show ?case
  proof (cases e)
    case (Frame inp)
    obtain s1 where l: "loop rnd inp s = Inr s1"
      and l2: "bombsHitRef s1 = bombsHitRef s \<longrightarrow>
         jsSub (jsDiv (in_now inp) 1000) (lastSliceTimeRef s) \<le> COMBO_WINDOW \<longrightarrow>
          currentComboRef s1 = currentComboRef s + (slicedCountRef s1 - slicedCountRef s)"
      using loop_combo[of rnd inp s] by blast
    from Cons.prems Frame l have alive: "chainAlive rnd es s1"
      and b: "bombsHitRef s1 = bombsHitRef s"
      and gap: "jsSub (jsDiv (in_now inp) 1000) (lastSliceTimeRef s) \<le> COMBO_WINDOW"
      by simp_all
    from Cons.IH[OF alive] obtain s' where r: "run rnd es s1 = Inr s'"
      and c: "currentComboRef s' = currentComboRef s1 + (slicedCountRef s' - slicedCountRef s1)"
      by blast
    from l2 b gap have "currentComboRef s1 = currentComboRef s + (slicedCountRef s1 - slicedCountRef s)"
      by simp
    with r c Frame l show ?thesis by simp
  next
    case (Timeout t)
    with Cons.prems have alive: "chainAlive rnd es (fireTimeout rnd t s)" by simp
    from Cons.IH[OF alive] Timeout show ?thesis by simp
  next
    case (StartGame t)
    with Cons.prems show ?thesis by simp
  qed
qed

lemma body_combo:
  assumes "i < length (fruitsRef s)"
      and "fruit = integrate dt difficulty (fruitsRef s ! i)"
      and "\<not> (f_y fruit > height + FRUIT_LIFETIME_Y_OFFSET \<and> f_vy fruit > 0)"
      and "\<not> f_sliced fruit"
      and "hitTest (recentPoints (trailRef s)) fruit"
  shows "\<exists>s'. loopBody rnd now dt height difficulty cutAngle i s = Inr s' \<and>
           (if f_type fruit = bomb
            then currentComboRef s' = 0
            else currentComboRef s' = currentComboRef s + 1
               \<and> lastSliceTimeRef s' = jsDiv now 1000
               \<and> slicedCountRef s' = slicedCountRef s + 1
               \<and> scoreRef s' = scoreRef s + 10
                    + (if currentComboRef s' > 1 then currentComboRef s' * 5 else 0))"
  using assms by (auto simp add: loopBody_def fruitStep_def Let_def)

lemma swipeAt_now [simp]: "in_now (swipeAt now tx) = now"
  by (simp add: swipeAt_def)

lemmas eval_defs =
  loop_def gameLogic_def swipeAt_def handPointsOf_def screenShake_def
  ageTrail_def spawnLogic_def comboTimeout_def cutAngleOf_def difficultyOf_def
  loopBody_def fruitStep_def Let_def
  integrate_def recentPoints_def splice1_def
  sliceBranch_def createExplosion_eq createDebris_def createFloatingText_def
  updateParticles_def updateTexts_def updateDebris_def flashEffect_def
  FRUIT_LIFETIME_Y_OFFSET_def GRAVITY_def MAX_LIVES_def TRAIL_LENGTH_def
  BASE_SPAWN_INTERVAL_def gap_tests numeral_3_eq_3 numeral_2_eq_2

lemma boundary1:
  "\<exists>s'. loop tapeHalf (swipeAt 100 (7 / 8)) threeGrapes = Inr s'
     \<and> snapshot s' = (100, 0, PLAYING, False, [\<lparr> p_x = 100, p_y = 300, p_life = Some 4 \<rparr>],
          [(grapesAt 400 300)\<lparr> f_vy := 150 \<rparr>, (grapesAt 700 300)\<lparr> f_vy := 150 \<rparr>],
          10, 1 / 10, 8 / 10, jsDiv 100 1000, 1, 1, 0)"
  by (simp add: eval_defs snapshot_def threeGrapes_def mounted_def grapesAt_def)

lemma boundary2:
  assumes "snapshot s = (100, 0, PLAYING, False, [\<lparr> p_x = 100, p_y = 300, p_life = Some 4 \<rparr>],
          [(grapesAt 400 300)\<lparr> f_vy := 150 \<rparr>, (grapesAt 700 300)\<lparr> f_vy := 150 \<rparr>],
          10, 1 / 10, 8 / 10, jsDiv 100 1000, 1, 1, 0)"
  shows "\<exists>s'. loop tapeHalf (swipeAt 400 (1 / 2)) s = Inr s'
     \<and> currentComboRef s' = 1 \<and> slicedCountRef s' = 2 \<and> scoreRef s' = 20 \<and> bombsHitRef s' = 0"
  using assms by (simp add: eval_defs snapshot_def grapesAt_def)

text \<open>
  C3, as stated: the combo is reset iff \<open>now - lastSliceTime > COMBO_WINDOW\<close>, so that slices
  whose gap is at most the window of 0.3 s chain.  With slices at 100 ms and at 400 ms, the
  gap is 0.3 s, and no bomb is hit; the component computes \<open>400 / 1000 - 100 / 1000\<close> on
  doubles, which is 0.30000000000000004 and exceeds the double 0.3: the second slice starts a
  new chain (combo 1 and score 20, not combo 2 and score 30).
\<close>

theorem combo_reset_at_window_counterexample:
  "(400 - 100) / 1000 \<le> (3 / 10 :: real)
   \<and> (\<exists>s1 s2.
         run tapeHalf [Frame (swipeAt 100 (7 / 8))] threeGrapes = Inr s1
       \<and> slicedCountRef s1 = 1 \<and> currentComboRef s1 = 1
       \<and> run tapeHalf [Frame (swipeAt 100 (7 / 8)), Frame (swipeAt 400 (1 / 2))] threeGrapes
           = Inr s2
       \<and> slicedCountRef s2 = 2 \<and> bombsHitRef s2 = 0
       \<and> currentComboRef s2 = 1 \<and> scoreRef s2 = 20)"
proof -
  obtain s1 where l1: "loop tapeHalf (swipeAt 100 (7 / 8)) threeGrapes = Inr s1"
    and sn1: "snapshot s1 = (100, 0, PLAYING, False, [\<lparr> p_x = 100, p_y = 300, p_life = Some 4 \<rparr>],
          [(grapesAt 400 300)\<lparr> f_vy := 150 \<rparr>, (grapesAt 700 300)\<lparr> f_vy := 150 \<rparr>],
          10, 1 / 10, 8 / 10, jsDiv 100 1000, 1, 1, 0)"
    using boundary1 by blast
  obtain s2 where l2: "loop tapeHalf (swipeAt 400 (1 / 2)) s1 = Inr s2"
    and c2: "currentComboRef s2 = 1" "slicedCountRef s2 = 2" "scoreRef s2 = 20" "bombsHitRef s2 = 0"
    using boundary2[OF sn1] by blast
  have c1: "slicedCountRef s1 = 1" "currentComboRef s1 = 1"
    using sn1 by (simp_all add: snapshot_def)
  have r1: "run tapeHalf [Frame (swipeAt 100 (7 / 8))] threeGrapes = Inr s1" by (simp add: l1)
  have r2: "run tapeHalf [Frame (swipeAt 100 (7 / 8)), Frame (swipeAt 400 (1 / 2))] threeGrapes
           = Inr s2"
    by (simp add: l1 l2)
  have "\<exists>s1 s2.
         run tapeHalf [Frame (swipeAt 100 (7 / 8))] threeGrapes = Inr s1
       \<and> slicedCountRef s1 = 1 \<and> currentComboRef s1 = 1
       \<and> run tapeHalf [Frame (swipeAt 100 (7 / 8)), Frame (swipeAt 400 (1 / 2))] threeGrapes
           = Inr s2
       \<and> slicedCountRef s2 = 2 \<and> bombsHitRef s2 = 0
       \<and> currentComboRef s2 = 1 \<and> scoreRef s2 = 20"
    by (intro exI[of _ s1] exI[of _ s2] conjI r1 r2 c1 c2)
  then show ?thesis by simp
qed

text \<open>
  C3, amended.  Times are doubles: \<open>now\<close> below is \<open>performance.now()\<close> in milliseconds, \<open>/\<close>
  and \<open>-\<close> round to the nearest double, and \<open>COMBO_WINDOW\<close> is the double 0.3.
  (1) The combo timeout sets the combo to 0 iff the double \<open>now / 1000 - lastSliceTime\<close>
  exceeds \<open>COMBO_WINDOW\<close>, and it runs before the projectiles are visited: a tick of the game
  logic that hits no bomb ends with the combo at that value plus the number of slices of the
  tick.
  (2) When the loop body resolves a hit projectile, a bomb sets the combo to 0 whatever the
  time, and a slice increments the combo by 1, sets lastSliceTime to the double \<open>now / 1000\<close>,
  counts one slice and adds 10 points plus, when the incremented combo exceeds 1, the combo
  times 5.
  (3) Over any run of frames and timer callbacks that keeps the chain alive (at every frame
  that double gap is at most \<open>COMBO_WINDOW\<close>, and no bomb is hit), the combo grows by exactly
  the number of slices; so three slices with such gaps from combo 0 give 1, 2, 3.
\<close>

theorem combo_rules:
  "currentComboRef (comboTimeout now s)
     = (if jsSub (jsDiv now 1000) (lastSliceTimeRef s) > COMBO_WINDOW then 0 else currentComboRef s)
   \<and> (\<exists>s'. gameLogic rnd now dateNow dt width height s = Inr s'
          \<and> (bombsHitRef s' = bombsHitRef s \<longrightarrow>
               currentComboRef s'
                 = (if jsSub (jsDiv now 1000) (lastSliceTimeRef s) > COMBO_WINDOW then 0 else currentComboRef s)
                   + (slicedCountRef s' - slicedCountRef s)))
   \<and> (i < length (fruitsRef s)
        \<and> fruit = integrate dt difficulty (fruitsRef s ! i)
        \<and> \<not> (f_y fruit > height + FRUIT_LIFETIME_Y_OFFSET \<and> f_vy fruit > 0)
        \<and> \<not> f_sliced fruit
        \<and> hitTest (recentPoints (trailRef s)) fruit
       \<longrightarrow> (\<exists>s'. loopBody rnd now dt height difficulty cutAngle i s = Inr s' \<and>
              (if f_type fruit = bomb
               then currentComboRef s' = 0
               else currentComboRef s' = currentComboRef s + 1
                  \<and> lastSliceTimeRef s' = jsDiv now 1000
                  \<and> slicedCountRef s' = slicedCountRef s + 1
                  \<and> scoreRef s' = scoreRef s + 10
                       + (if currentComboRef s' > 1 then currentComboRef s' * 5 else 0))))
   \<and> (chainAlive rnd es s
       \<longrightarrow> (\<exists>s'. run rnd es s = Inr s'
              \<and> currentComboRef s' = currentComboRef s + (slicedCountRef s' - slicedCountRef s)))"
proof (intro conjI impI)
  show "currentComboRef (comboTimeout now s)
     = (if jsSub (jsDiv now 1000) (lastSliceTimeRef s) > COMBO_WINDOW then 0 else currentComboRef s)"
    by (rule comboTimeout_counters(1))
  show "\<exists>s'. gameLogic rnd now dateNow dt width height s = Inr s'
          \<and> (bombsHitRef s' = bombsHitRef s \<longrightarrow>
               currentComboRef s'
                 = (if jsSub (jsDiv now 1000) (lastSliceTimeRef s) > COMBO_WINDOW then 0 else currentComboRef s)
                   + (slicedCountRef s' - slicedCountRef s))"
    using gameLogic_combo[of rnd now dateNow dt width height s] by blast
next
  assume "i < length (fruitsRef s)
        \<and> fruit = integrate dt difficulty (fruitsRef s ! i)
        \<and> \<not> (f_y fruit > height + FRUIT_LIFETIME_Y_OFFSET \<and> f_vy fruit > 0)
        \<and> \<not> f_sliced fruit
        \<and> hitTest (recentPoints (trailRef s)) fruit"
  then show "\<exists>s'. loopBody rnd now dt height difficulty cutAngle i s = Inr s' \<and>
              (if f_type fruit = bomb
               then currentComboRef s' = 0
               else currentComboRef s' = currentComboRef s + 1
                  \<and> lastSliceTimeRef s' = jsDiv now 1000
                  \<and> slicedCountRef s' = slicedCountRef s + 1
                  \<and> scoreRef s' = scoreRef s + 10
                       + (if currentComboRef s' > 1 then currentComboRef s' * 5 else 0))"
    using body_combo by blast
next
  assume "chainAlive rnd es s"
  then show "\<exists>s'. run rnd es s = Inr s'
              \<and> currentComboRef s' = currentComboRef s + (slicedCountRef s' - slicedCountRef s)"
    by (rule chain_counts_slices)
qed

lemma frame1:
  "\<exists>s'. loop tapeHalf (swipeAt 125 (7 / 8)) threeGrapes = Inr s'
     \<and> snapshot s' = (125, 0, PLAYING, False, [\<lparr> p_x = 100, p_y = 300, p_life = Some 4 \<rparr>],
          [(grapesAt 400 300)\<lparr> f_vy := 150 \<rparr>, (grapesAt 700 300)\<lparr> f_vy := 150 \<rparr>],
          10, 1 / 10, 8 / 10, jsDiv 125 1000, 1, 1, 0)"
  by (simp add: eval_defs snapshot_def threeGrapes_def mounted_def grapesAt_def)

lemma frame2:
  assumes "snapshot s = (125, 0, PLAYING, False, [\<lparr> p_x = 100, p_y = 300, p_life = Some 4 \<rparr>],
          [(grapesAt 400 300)\<lparr> f_vy := 150 \<rparr>, (grapesAt 700 300)\<lparr> f_vy := 150 \<rparr>],
          10, 1 / 10, 8 / 10, jsDiv 125 1000, 1, 1, 0)"
  shows "\<exists>s'. loop tapeHalf (swipeAt 375 (1 / 2)) s = Inr s'
     \<and> snapshot s' = (375, 0, PLAYING, False, [\<lparr> p_x = 400, p_y = 300, p_life = Some 4 \<rparr>],
          [(grapesAt 700 315)\<lparr> f_vy := 3003 / 10 \<rparr>],
          30, 2 / 10, 8 / 10, jsDiv 375 1000, 2, 2, 0)"
  using assms by (simp add: eval_defs snapshot_def grapesAt_def)

lemma frame3:
  assumes "snapshot s = (375, 0, PLAYING, False, [\<lparr> p_x = 400, p_y = 300, p_life = Some 4 \<rparr>],
          [(grapesAt 700 315)\<lparr> f_vy := 3003 / 10 \<rparr>],
          30, 2 / 10, 8 / 10, jsDiv 375 1000, 2, 2, 0)"
  shows "\<exists>s'. loop tapeHalf (swipeAt 500 (1 / 8)) s = Inr s'
     \<and> currentComboRef s' = 3 \<and> slicedCountRef s' = 3 \<and> scoreRef s' = 55 \<and> bombsHitRef s' = 0"
  using assms by (simp add: eval_defs snapshot_def grapesAt_def)

theorem combo_rules_witness:
  "chainAlive tapeHalf
     [Frame (swipeAt 125 (7 / 8)), Frame (swipeAt 375 (1 / 2)), Frame (swipeAt 500 (1 / 8))]
     threeGrapes
   \<and> (\<exists>s1 s2 s3.
         run tapeHalf [Frame (swipeAt 125 (7 / 8))] threeGrapes = Inr s1
       \<and> currentComboRef s1 = 1
       \<and> run tapeHalf [Frame (swipeAt 125 (7 / 8)), Frame (swipeAt 375 (1 / 2))] threeGrapes = Inr s2
       \<and> currentComboRef s2 = 2
       \<and> run tapeHalf [Frame (swipeAt 125 (7 / 8)), Frame (swipeAt 375 (1 / 2)),
                        Frame (swipeAt 500 (1 / 8))] threeGrapes = Inr s3
       \<and> currentComboRef s3 = 3 \<and> slicedCountRef s3 = 3 \<and> scoreRef s3 = 55
       \<and> currentComboRef s3 = currentComboRef threeGrapes
            + (slicedCountRef s3 - slicedCountRef threeGrapes))
   \<and> 0 < length (fruitsRef sliceScene)
   \<and> \<not> (f_y (integrate (16 / 1000) 1 (grapesAt 400 300)) > 600 + FRUIT_LIFETIME_Y_OFFSET
          \<and> f_vy (integrate (16 / 1000) 1 (grapesAt 400 300)) > 0)
   \<and> \<not> f_sliced (integrate (16 / 1000) 1 (grapesAt 400 300))
   \<and> hitTest (recentPoints (trailRef sliceScene)) (integrate (16 / 1000) 1 (grapesAt 400 300))
   \<and> (\<exists>s'. loopBody tapeHalf 1016 (16 / 1000) 600 1 0 0 sliceScene = Inr s'
          \<and> currentComboRef s' = 1 \<and> lastSliceTimeRef s' = jsDiv 1016 1000
          \<and> slicedCountRef s' = 1 \<and> scoreRef s' = 10)
   \<and> (\<exists>s'. gameLogic tapeHalf 1016 0 (16 / 1000) 800 600 sliceScene = Inr s'
          \<and> bombsHitRef s' = bombsHitRef sliceScene \<and> currentComboRef s' = 1)"
proof -
  let ?f1 = "swipeAt 125 (7 / 8)" and ?f2 = "swipeAt 375 (1 / 2)" and ?f3 = "swipeAt 500 (1 / 8)"
  obtain s1 where l1: "loop tapeHalf ?f1 threeGrapes = Inr s1"
    and sn1: "snapshot s1 = (125, 0, PLAYING, False, [\<lparr> p_x = 100, p_y = 300, p_life = Some 4 \<rparr>],
          [(grapesAt 400 300)\<lparr> f_vy := 150 \<rparr>, (grapesAt 700 300)\<lparr> f_vy := 150 \<rparr>],
          10, 1 / 10, 8 / 10, jsDiv 125 1000, 1, 1, 0)"
    using frame1 by blast
  obtain s2 where l2: "loop tapeHalf ?f2 s1 = Inr s2"
    and sn2: "snapshot s2 = (375, 0, PLAYING, False, [\<lparr> p_x = 400, p_y = 300, p_life = Some 4 \<rparr>],
          [(grapesAt 700 315)\<lparr> f_vy := 3003 / 10 \<rparr>],
          30, 2 / 10, 8 / 10, jsDiv 375 1000, 2, 2, 0)"
    using frame2[OF sn1] by blast
  obtain s3 where l3: "loop tapeHalf ?f3 s2 = Inr s3"
    and c3: "currentComboRef s3 = 3" "slicedCountRef s3 = 3" "scoreRef s3 = 55" "bombsHitRef s3 = 0"
    using frame3[OF sn2] by blast
  have c0: "lastSliceTimeRef threeGrapes = 0" "bombsHitRef threeGrapes = 0"
    "currentComboRef threeGrapes = 0" "slicedCountRef threeGrapes = 0"
    by (simp_all add: threeGrapes_def mounted_def)
  have c1: "lastSliceTimeRef s1 = jsDiv 125 1000" "bombsHitRef s1 = 0" "currentComboRef s1 = 1"
    using sn1 by (simp_all add: snapshot_def)
  have c2: "lastSliceTimeRef s2 = jsDiv 375 1000" "bombsHitRef s2 = 0" "currentComboRef s2 = 2"
    using sn2 by (simp_all add: snapshot_def)
  have alive: "chainAlive tapeHalf [Frame ?f1, Frame ?f2, Frame ?f3] threeGrapes"
    by (simp add: l1 l2 l3 c0 c1 c2 c3 gap_within)
  have r1: "run tapeHalf [Frame ?f1] threeGrapes = Inr s1" by (simp add: l1)
  have r2: "run tapeHalf [Frame ?f1, Frame ?f2] threeGrapes = Inr s2" by (simp add: l1 l2)
  have r3: "run tapeHalf [Frame ?f1, Frame ?f2, Frame ?f3] threeGrapes = Inr s3"
    by (simp add: l1 l2 l3)
  let ?f = "integrate (16 / 1000) 1 (grapesAt 400 300)"
  have h1: "0 < length (fruitsRef sliceScene)" by (simp add: sliceScene_def)
  have h2: "?f = integrate (16 / 1000) 1 (fruitsRef sliceScene ! 0)" by (simp add: sliceScene_def)
  have h3: "\<not> (f_y ?f > 600 + FRUIT_LIFETIME_Y_OFFSET \<and> f_vy ?f > 0)"
    by (simp add: integrate_def grapesAt_def FRUIT_LIFETIME_Y_OFFSET_def)
  have h4: "\<not> f_sliced ?f" by (simp add: integrate_def grapesAt_def)
  have h5: "hitTest (recentPoints (trailRef sliceScene)) ?f"
    by (simp add: sliceScene_def recentPoints_def trailAt_def integrate_def grapesAt_def)
  have t: "f_type ?f \<noteq> bomb" by (simp add: integrate_def grapesAt_def)
  have st: "currentComboRef sliceScene = 0" "slicedCountRef sliceScene = 0" "scoreRef sliceScene = 0"
    "lastSliceTimeRef sliceScene = 0" "bombsHitRef sliceScene = 0"
    by (simp_all add: sliceScene_def playing_def mounted_def)
  have chain: "\<exists>s'. run tapeHalf [Frame ?f1, Frame ?f2, Frame ?f3] threeGrapes = Inr s'
      \<and> currentComboRef s' = currentComboRef threeGrapes
           + (slicedCountRef s' - slicedCountRef threeGrapes)"
    by (rule combo_rules[where s = threeGrapes and rnd = tapeHalf
          and es = "[Frame ?f1, Frame ?f2, Frame ?f3]",
          THEN conjunct2, THEN conjunct2, THEN conjunct2, THEN mp])
       (rule alive)
  have ch3: "currentComboRef s3 = currentComboRef threeGrapes
           + (slicedCountRef s3 - slicedCountRef threeGrapes)"
    using chain unfolding r3 by simp
  have inst: "\<exists>s'. loopBody tapeHalf 1016 (16 / 1000) 600 1 0 0 sliceScene = Inr s' \<and>
              (if f_type ?f = bomb
               then currentComboRef s' = 0
               else currentComboRef s' = currentComboRef sliceScene + 1
                  \<and> lastSliceTimeRef s' = jsDiv 1016 1000
                  \<and> slicedCountRef s' = slicedCountRef sliceScene + 1
                  \<and> scoreRef s' = scoreRef sliceScene + 10
                       + (if currentComboRef s' > 1 then currentComboRef s' * 5 else 0))"
    by (rule combo_rules[where s = sliceScene and rnd = tapeHalf and i = 0 and fruit = ?f
          and dt = "16 / 1000" and difficulty = 1 and height = 600 and now = 1016
          and cutAngle = 0, THEN conjunct2, THEN conjunct2, THEN conjunct1, THEN mp])
       (intro conjI h1 h2 h3 h4 h5)
  then obtain s' where b1: "loopBody tapeHalf 1016 (16 / 1000) 600 1 0 0 sliceScene = Inr s'"
    and b2: "currentComboRef s' = currentComboRef sliceScene + 1"
      "lastSliceTimeRef s' = jsDiv 1016 1000"
      "slicedCountRef s' = slicedCountRef sliceScene + 1"
      "scoreRef s' = scoreRef sliceScene + 10
         + (if currentComboRef s' > 1 then currentComboRef s' * 5 else 0)"
    using t by auto
  have body: "\<exists>s'. loopBody tapeHalf 1016 (16 / 1000) 600 1 0 0 sliceScene = Inr s'
          \<and> currentComboRef s' = 1 \<and> lastSliceTimeRef s' = jsDiv 1016 1000
          \<and> slicedCountRef s' = 1 \<and> scoreRef s' = 10"
    using b1 b2 st by (intro exI[of _ s']) simp
  have logic: "\<exists>s'. gameLogic tapeHalf 1016 0 (16 / 1000) 800 600 sliceScene = Inr s'
          \<and> bombsHitRef s' = bombsHitRef sliceScene \<and> currentComboRef s' = 1"
    by (simp add: gameLogic_def spawnLogic_def comboTimeout_def cutAngleOf_def difficultyOf_def
        loopBody_def fruitStep_def Let_def sliceScene_def playing_def mounted_def grapesAt_def
        trailAt_def integrate_def recentPoints_def
        FRUIT_LIFETIME_Y_OFFSET_def GRAVITY_def MAX_LIVES_def TRAIL_LENGTH_def
        BASE_SPAWN_INTERVAL_def gap_tests)
  have runs: "\<exists>s1 s2 s3.
         run tapeHalf [Frame ?f1] threeGrapes = Inr s1
       \<and> currentComboRef s1 = 1
       \<and> run tapeHalf [Frame ?f1, Frame ?f2] threeGrapes = Inr s2
       \<and> currentComboRef s2 = 2
       \<and> run tapeHalf [Frame ?f1, Frame ?f2, Frame ?f3] threeGrapes = Inr s3
       \<and> currentComboRef s3 = 3 \<and> slicedCountRef s3 = 3 \<and> scoreRef s3 = 55
       \<and> currentComboRef s3 = currentComboRef threeGrapes
            + (slicedCountRef s3 - slicedCountRef threeGrapes)"
    by (intro exI[of _ s1] exI[of _ s2] exI[of _ s3] conjI r1 r2 r3 c1(3) c2(3) c3(1,2,3) ch3)
  show ?thesis
    by (intro conjI alive runs h1 h3 h4 h5 body logic)
qed

section \<open>Lives and the game-over report\<close>

text \<open>
  C1.  The claim: lives never goes below 0 and the game-over report is emitted exactly once,
  also in a tick in which more than one bomb qualifies.  The code at a session with one life
  left, two live bombs at the centre of an 800 x 600 canvas and the hand at the centre: the
  frame hits both bombs, lives ends at -1 and \<open>onGameOver\<close> is called twice, with the
  bomb counts 3 and 4.
\<close>

theorem second_bomb_same_tick_lives_negative:
  "\<exists>s'. loop tapeHalf handAtCentre lastLife = Inr s'
        \<and> livesRef s' = - 1
        \<and> reports s' = [(0, 0, 3), (0, 0, 4)]
        \<and> gameState s' = GAME_OVER"
  by (simp add: loop_def gameLogic_def handAtCentre_def handPointsOf_def screenShake_def
        ageTrail_def spawnLogic_def comboTimeout_def cutAngleOf_def difficultyOf_def
        numeral_2_eq_2 loopBody_def fruitStep_def Let_def lastLife_def playing_def
        mounted_def bombAt_def trailAt_def integrate_def recentPoints_def splice1_def
        FRUIT_LIFETIME_Y_OFFSET_def GRAVITY_def MAX_LIVES_def TRAIL_LENGTH_def
        BASE_SPAWN_INTERVAL_def gap_tests)

end
